theory Spec2Isabelle
  imports Complex_Main "HOL-Library.Word" "HOL-Library.Sublist"
begin

section \<open>JavaScript values\<close>

text \<open>
  A JavaScript string is a sequence of UTF-16 code units: \<open>text[i]\<close>, \<open>length\<close>,
  \<open>slice\<close> and \<open>includes\<close> all count code units. A string is therefore a list of
  16-bit words, and \<open>lit\<close> writes an ASCII literal of the source as such a list.
\<close>

type_synonym jschar = "16 word"
type_synonym jsstring = "jschar list"

definition lit :: "string \<Rightarrow> jsstring" where
  "lit s = map (\<lambda>c. word_of_nat (of_char c)) s"

text \<open>The character \<open>'\b'\<close> of the source: code unit 8.\<close>

definition backspace :: jschar where
  "backspace = 8"

text \<open>
  \<open>String.prototype.slice(b, e)\<close>: a negative index counts from the end, and both
  indices are clamped to the string.
\<close>

definition slice :: "jsstring \<Rightarrow> int \<Rightarrow> int \<Rightarrow> jsstring" where
  "slice s b e =
     (let n = int (length s);
          from = (if b < 0 then max (n + b) 0 else min b n);
          to = (if e < 0 then max (n + e) 0 else min e n)
      in take (nat (to - from)) (drop (nat from) s))"

text \<open>\<open>String.prototype.includes(sub)\<close>: \<open>sub\<close> occurs as a contiguous substring.\<close>

fun String_includes :: "jsstring \<Rightarrow> jsstring \<Rightarrow> bool" where
  "String_includes [] sub = (sub = [])"
| "String_includes (c # cs) sub = (prefix sub (c # cs) \<or> String_includes cs sub)"

text \<open>
  Values of type \<open>any\<close>: what arrives through the JSON bridge or comes out of
  \<open>JSON.parse\<close>, plus \<open>undefined\<close> for a property that is not there. A number is
  only ever tested for truthiness here, so a rational stands for the finite double.
  An object is the list of its own properties (keys distinct in a real object).
\<close>

datatype jsval =
    JUndefined
  | JNull
  | JBoolean bool
  | JNumber rat
  | JString jsstring
  | JArray "jsval list"
  | JObject "(jsstring \<times> jsval) list"

text \<open>JavaScript truthiness (\<open>ToBoolean\<close>).\<close>

fun truthy :: "jsval \<Rightarrow> bool" where
  "truthy JUndefined = False"
| "truthy JNull = False"
| "truthy (JBoolean b) = b"
| "truthy (JNumber n) = (n \<noteq> 0)"
| "truthy (JString s) = (s \<noteq> [])"
| "truthy (JArray xs) = True"
| "truthy (JObject kvs) = True"

fun isArray :: "jsval \<Rightarrow> bool" where
  "isArray (JArray xs) = True"
| "isArray v = False"

datatype exn = SyntaxError | TypeError

text \<open>
  The property read \<open>v.newTodos\<close>: a TypeError on \<open>null\<close> and \<open>undefined\<close>, the own
  property of an object (or \<open>undefined\<close>), and \<open>undefined\<close> on every primitive and
  array, whose prototypes have no such property.
\<close>

fun get_newTodos :: "jsval \<Rightarrow> exn + jsval" where
  "get_newTodos JUndefined = Inl TypeError"
| "get_newTodos JNull = Inl TypeError"
| "get_newTodos (JObject kvs) =
     Inr (case map_of kvs (lit ''newTodos'') of None \<Rightarrow> JUndefined | Some v \<Rightarrow> v)"
| "get_newTodos v = Inr JUndefined"

text \<open>
  \<open>a || b\<close> and \<open>a || "default"\<close> on optional strings (\<open>string | undefined\<close>):
  \<open>undefined\<close> and the empty string are falsy.
\<close>

definition truthy_str :: "jsstring option \<Rightarrow> bool" where
  "truthy_str a = (case a of None \<Rightarrow> False | Some s \<Rightarrow> s \<noteq> [])"

definition or_else :: "jsstring option \<Rightarrow> jsstring option \<Rightarrow> jsstring option" where
  "or_else a b = (if truthy_str a then a else b)"

definition or_default :: "jsstring option \<Rightarrow> jsstring \<Rightarrow> jsstring" where
  "or_default a d = (case a of None \<Rightarrow> d | Some s \<Rightarrow> if s \<noteq> [] then s else d)"

section \<open>Text repair: \<open>src/utils/textProcessing.ts\<close>\<close>

text \<open>
  The \<open>for\<close> loop of \<open>processBackspaces\<close>, with its index \<open>i\<close> and the string
  \<open>result\<close> built so far.
\<close>

function processBackspaces_loop :: "jsstring \<Rightarrow> nat \<Rightarrow> jsstring \<Rightarrow> jsstring" where
  "processBackspaces_loop text i result =
     (if i < length text then
        (let char = text ! i in
         if char = backspace then
           (if length result > 0
            then processBackspaces_loop text (i + 1) (slice result 0 (- 1))
            else processBackspaces_loop text (i + 1) result)
         else processBackspaces_loop text (i + 1) (result @ [char]))
      else result)"
  by pat_completeness auto
termination
  by (relation "measure (\<lambda>(text, i, result). length text - i)") auto

definition processBackspaces :: "jsstring \<Rightarrow> jsstring" where
  "processBackspaces text =
     (if \<not> String_includes text [backspace] then text
      else processBackspaces_loop text 0 [])"

text \<open>
  The pass as the specification words it: an output buffer, one input character at a
  time, a backspace removing the last character appended (if any), every other
  character appended unchanged. There is no fast path here.
\<close>

fun repair_pass :: "jsstring \<Rightarrow> jsstring \<Rightarrow> jsstring" where
  "repair_pass buf [] = buf"
| "repair_pass buf (c # cs) =
     (if c = backspace
      then (if buf \<noteq> [] then repair_pass (butlast buf) cs else repair_pass buf cs)
      else repair_pass (buf @ [c]) cs)"

definition repair_spec :: "jsstring \<Rightarrow> jsstring" where
  "repair_spec s = repair_pass [] s"

section \<open>Content blocks: \<open>src/types/chat.ts\<close> and \<open>src/components/MessageRenderer.tsx\<close>\<close>

text \<open>
  \<open>ContentBlock\<close>: every field is optional. \<open>type\<close> and \<open>text\<close> are primed, being
  reserved words here. The two fields of type \<open>any\<close> are \<open>JUndefined\<close> when absent.
\<close>

record ContentBlock =
  block_type :: "jsstring option"
  type' :: "jsstring option"
  text' :: "jsstring option"
  name :: "jsstring option"
  input :: jsval
  tool_use_id :: "jsstring option"
  content :: "jsstring option"
  tool_use_result :: jsval
  thinking :: "jsstring option"

text \<open>
  What \<open>ContentBlockRenderer\<close> returns: the component it picks with its props. The
  last case is the debug panel of the \<open>default\<close> branch, which shows the block type,
  the keys of the block and the whole block as JSON.
\<close>

datatype element =
    MessageText jsstring
  | ToolUseBlock ContentBlock
  | ToolResultBlock ContentBlock
  | ThinkingBlock ContentBlock
  | UnknownBlockType jsstring ContentBlock

text \<open>\<open>block.block_type || block.type || "unknown"\<close>\<close>

definition blockType :: "ContentBlock \<Rightarrow> jsstring" where
  "blockType block = or_default (or_else (block_type block) (type' block)) (lit ''unknown'')"

definition ContentBlockRenderer :: "ContentBlock \<Rightarrow> element" where
  "ContentBlockRenderer block =
     (if blockType block = lit ''text'' then MessageText (or_default (text' block) [])
      else if blockType block = lit ''tool_use'' then ToolUseBlock block
      else if blockType block = lit ''tool_result'' then ToolResultBlock block
      else if blockType block = lit ''thinking'' then ThinkingBlock block
      else UnknownBlockType (blockType block) block)"

text \<open>
  The body of \<open>ThinkingBlock\<close>: the text of \<open>block.thinking\<close> when that is truthy,
  and otherwise no text (the placeholder "No thinking content").
\<close>

definition ThinkingBlock_body :: "ContentBlock \<Rightarrow> element option" where
  "ThinkingBlock_body block =
     (case thinking block of
        None \<Rightarrow> None
      | Some s \<Rightarrow> if s \<noteq> [] then Some (MessageText s) else None)"

text \<open>
  The classified segment of the specification, and the segment an element stands
  for: each component with the fields of the block it is given. A reasoning trace
  has the body \<open>block.thinking\<close>, or the empty string when that is falsy.
\<close>

datatype ClassifiedSegment =
    Text jsstring
  | ToolInvocation "jsstring option" jsval
  | ToolOutput "jsstring option" "jsstring option" jsval
  | ReasoningTrace jsstring
  | Unrecognized ContentBlock

fun segment_of :: "element \<Rightarrow> ClassifiedSegment" where
  "segment_of (MessageText s) = Text s"
| "segment_of (ToolUseBlock b) = ToolInvocation (name b) (input b)"
| "segment_of (ToolResultBlock b) = ToolOutput (tool_use_id b) (content b) (tool_use_result b)"
| "segment_of (ThinkingBlock b) = ReasoningTrace (or_default (thinking b) [])"
| "segment_of (UnknownBlockType t b) = Unrecognized b"

definition classify :: "ContentBlock \<Rightarrow> ClassifiedSegment" where
  "classify block = segment_of (ContentBlockRenderer block)"

text \<open>
  The tag resolution and the dispatch as the specification words them: the primary
  field, the secondary one when the primary is absent or empty, "unknown" when both
  are absent.
\<close>

definition effective_tag_spec :: "ContentBlock \<Rightarrow> jsstring" where
  "effective_tag_spec b =
     (case block_type b of
        Some t \<Rightarrow> if t \<noteq> [] then t
                  else (case type' b of Some u \<Rightarrow> u | None \<Rightarrow> lit ''unknown'')
      | None \<Rightarrow> (case type' b of Some u \<Rightarrow> u | None \<Rightarrow> lit ''unknown''))"

definition known_tags :: "jsstring list" where
  "known_tags = [lit ''text'', lit ''tool_use'', lit ''tool_result'', lit ''thinking'']"

definition classify_spec :: "ContentBlock \<Rightarrow> ClassifiedSegment" where
  "classify_spec b =
     (let tag = effective_tag_spec b in
      if tag = lit ''text'' then Text (case text' b of None \<Rightarrow> [] | Some s \<Rightarrow> s)
      else if tag = lit ''tool_use'' then ToolInvocation (name b) (input b)
      else if tag = lit ''tool_result''
        then ToolOutput (tool_use_id b) (content b) (tool_use_result b)
      else if tag = lit ''thinking''
        then ReasoningTrace (case thinking b of None \<Rightarrow> [] | Some s \<Rightarrow> s)
      else Unrecognized b)"

section \<open>The renderer on raw segments\<close>

text \<open>
  The segment as it is at run time: any value. The list of a \<open>JObject\<close> holds its
  own properties in the order JavaScript enumerates them.

  The property reads \<open>block.block_type\<close>, \<open>block.type\<close> and \<open>block.text\<close>: a
  TypeError on \<open>null\<close> and \<open>undefined\<close>, the own property of an object, and
  \<open>undefined\<close> on a primitive or an array, whose prototypes have none of these names.
\<close>

fun get_property :: "jsstring \<Rightarrow> jsval \<Rightarrow> exn + jsval" where
  "get_property k JUndefined = Inl TypeError"
| "get_property k JNull = Inl TypeError"
| "get_property k (JObject kvs) =
     Inr (case map_of kvs k of None \<Rightarrow> JUndefined | Some v \<Rightarrow> v)"
| "get_property k v = Inr JUndefined"

text \<open>
  \<open>Object.keys\<close>: a TypeError on \<open>null\<close> and \<open>undefined\<close>, the keys of an object,
  the indices of an array or a string (\<open>decimal\<close> writes an index in decimal digits),
  and no key for a number or a boolean.
\<close>

fun decimal :: "nat \<Rightarrow> jsstring" where
  "decimal n =
     (if n < 10 then [word_of_nat (48 + n)]
      else decimal (n div 10) @ [word_of_nat (48 + n mod 10)])"

fun Object_keys :: "jsval \<Rightarrow> exn + jsstring list" where
  "Object_keys JUndefined = Inl TypeError"
| "Object_keys JNull = Inl TypeError"
| "Object_keys (JObject kvs) = Inr (map fst kvs)"
| "Object_keys (JArray xs) = Inr (map decimal [0..<length xs])"
| "Object_keys (JString s) = Inr (map decimal [0..<length s])"
| "Object_keys v = Inr []"

text \<open>\<open>Array.prototype.join(sep)\<close> on an array of strings.\<close>

fun Array_join :: "jsstring list \<Rightarrow> jsstring \<Rightarrow> jsstring" where
  "Array_join [] sep = []"
| "Array_join [x] sep = x"
| "Array_join (x # y # ys) sep = x @ sep @ Array_join (y # ys) sep"

text \<open>
  \<open>JSON.stringify(v, null, 2)\<close>, with the current indentation: \<open>undefined\<close> gives
  \<open>undefined\<close> (\<open>None\<close>), an \<open>undefined\<close> element of an array is written \<open>null\<close> and
  an \<open>undefined\<close> property is left out. \<open>quote\<close> is the built-in quoting of a JSON
  string and \<open>num\<close> the built-in printing of a number. \<open>JSON.stringify\<close> throws only
  on a BigInt and on a cyclic structure, and a \<open>jsval\<close> is neither. \<open>gap\<close> is the
  indentation of one level, two spaces.
\<close>

definition newline :: jschar where
  "newline = 10"

definition gap :: jsstring where
  "gap = lit ''  ''"

fun JSON_stringify :: "(jsstring \<Rightarrow> jsstring) \<Rightarrow> (rat \<Rightarrow> jsstring) \<Rightarrow> jsstring \<Rightarrow> jsval \<Rightarrow> jsstring option" where
  "JSON_stringify quote num indent JUndefined = None"
| "JSON_stringify quote num indent JNull = Some (lit ''null'')"
| "JSON_stringify quote num indent (JBoolean b) = Some (if b then lit ''true'' else lit ''false'')"
| "JSON_stringify quote num indent (JNumber n) = Some (num n)"
| "JSON_stringify quote num indent (JString s) = Some (quote s)"
| "JSON_stringify quote num indent (JArray xs) =
     Some (if xs = [] then lit ''[]''
           else lit ''['' @ [newline] @ indent @ gap
                @ Array_join
                    (map (\<lambda>x. case JSON_stringify quote num (indent @ gap) x of
                                None \<Rightarrow> lit ''null'' | Some s \<Rightarrow> s) xs)
                    (lit '','' @ [newline] @ indent @ gap)
                @ [newline] @ indent @ lit '']'')"
| "JSON_stringify quote num indent (JObject kvs) =
     (let partial =
        concat (map (\<lambda>kv. case JSON_stringify quote num (indent @ gap) (snd kv) of
                            None \<Rightarrow> []
                          | Some s \<Rightarrow> [quote (fst kv) @ lit '': '' @ s]) kvs)
      in Some (if partial = [] then lit ''{}''
               else lit ''{'' @ [newline] @ indent @ gap
                    @ Array_join partial (lit '','' @ [newline] @ indent @ gap)
                    @ [newline] @ indent @ lit ''}''))"

text \<open>
  What \<open>ContentBlockRenderer\<close> returns for a segment as it is at run time, or the
  exception it throws. The debug panel of the \<open>default\<close> branch holds the block
  type, \<open>Object.keys(block).join(", ")\<close> and \<open>JSON.stringify(block, null, 2)\<close>.
\<close>

datatype raw_element =
    RawMessageText jsval
  | RawToolUseBlock jsval
  | RawToolResultBlock jsval
  | RawThinkingBlock jsval
  | RawUnknownBlockType jsval jsstring "jsstring option"

definition ContentBlockRenderer_raw ::
  "(jsstring \<Rightarrow> jsstring) \<Rightarrow> (rat \<Rightarrow> jsstring) \<Rightarrow> jsval \<Rightarrow> exn + raw_element" where
  "ContentBlockRenderer_raw quote num block =
     (case get_property (lit ''block_type'') block of
        Inl e \<Rightarrow> Inl e
      | Inr bt \<Rightarrow>
          (case (if truthy bt then Inr bt else get_property (lit ''type'') block) of
             Inl e \<Rightarrow> Inl e
           | Inr t \<Rightarrow>
               (let blockType = (if truthy t then t else JString (lit ''unknown'')) in
                if blockType = JString (lit ''text'') then
                  (case get_property (lit ''text'') block of
                     Inl e \<Rightarrow> Inl e
                   | Inr tx \<Rightarrow> Inr (RawMessageText (if truthy tx then tx else JString [])))
                else if blockType = JString (lit ''tool_use'') then Inr (RawToolUseBlock block)
                else if blockType = JString (lit ''tool_result'')
                  then Inr (RawToolResultBlock block)
                else if blockType = JString (lit ''thinking'') then Inr (RawThinkingBlock block)
                else
                  (case Object_keys block of
                     Inl e \<Rightarrow> Inl e
                   | Inr keys \<Rightarrow>
                       Inr (RawUnknownBlockType blockType (Array_join keys (lit '', ''))
                              (JSON_stringify quote num [] block))))))"

text \<open>
  The run-time object of a typed \<open>ContentBlock\<close>: the fields that are present, and
  the element of the typed renderer as the element of the raw one.
\<close>

definition string_field :: "string \<Rightarrow> jsstring option \<Rightarrow> (jsstring \<times> jsval) list" where
  "string_field k a = (case a of None \<Rightarrow> [] | Some s \<Rightarrow> [(lit k, JString s)])"

definition any_field :: "string \<Rightarrow> jsval \<Rightarrow> (jsstring \<times> jsval) list" where
  "any_field k v = (if v = JUndefined then [] else [(lit k, v)])"

definition raw_of :: "ContentBlock \<Rightarrow> jsval" where
  "raw_of b =
     JObject (string_field ''block_type'' (block_type b) @ string_field ''type'' (type' b)
              @ string_field ''text'' (text' b) @ string_field ''name'' (name b)
              @ any_field ''input'' (input b) @ string_field ''tool_use_id'' (tool_use_id b)
              @ string_field ''content'' (content b)
              @ any_field ''tool_use_result'' (tool_use_result b)
              @ string_field ''thinking'' (thinking b))"

fun raw_element_of ::
  "(jsstring \<Rightarrow> jsstring) \<Rightarrow> (rat \<Rightarrow> jsstring) \<Rightarrow> element \<Rightarrow> raw_element" where
  "raw_element_of quote num (MessageText s) = RawMessageText (JString s)"
| "raw_element_of quote num (ToolUseBlock b) = RawToolUseBlock (raw_of b)"
| "raw_element_of quote num (ToolResultBlock b) = RawToolResultBlock (raw_of b)"
| "raw_element_of quote num (ThinkingBlock b) = RawThinkingBlock (raw_of b)"
| "raw_element_of quote num (UnknownBlockType t b) =
     RawUnknownBlockType (JString t)
       (case Object_keys (raw_of b) of Inl e \<Rightarrow> [] | Inr keys \<Rightarrow> Array_join keys (lit '', ''))
       (JSON_stringify quote num [] (raw_of b))"

section \<open>Task list extraction: \<open>ToolResultBlock\<close>\<close>

text \<open>
  \<open>block.content?.includes(...) || block.content?.includes(...)\<close>: falsy when
  \<open>content\<close> is absent.
\<close>

definition ToolResultBlock_isTodoResult :: "ContentBlock \<Rightarrow> bool" where
  "ToolResultBlock_isTodoResult block =
     (case content block of
        None \<Rightarrow> False
      | Some c \<Rightarrow> String_includes c (lit ''Todos have been modified successfully'')
                  \<or> String_includes c (lit ''todo list''))"

definition lbrace :: jschar where
  "lbrace = 123"

definition rbrace :: jschar where
  "rbrace = 125"

text \<open>
  \<open>content.match(/\{[\s\S]*\}/)\<close>, giving \<open>jsonMatch[0]\<close> or \<open>None\<close> for \<open>null\<close>.
  The class \<open>[\s\S]\<close> takes any code unit and the star is greedy, so the leftmost
  match starts at the first opening brace and runs to the last closing brace of the
  string, if one follows.
\<close>

definition match_braces :: "jsstring \<Rightarrow> jsstring option" where
  "match_braces s =
     (let t = dropWhile (\<lambda>c. c \<noteq> lbrace) s in
      if rbrace \<in> set t
      then Some (rev (dropWhile (\<lambda>c. c \<noteq> rbrace) (rev t)))
      else None)"

text \<open>
  The body of the \<open>try\<close> block: the value of \<open>todoData\<close> when it completes, or the
  exception it throws. \<open>JSON_parse\<close> is the built-in \<open>JSON.parse\<close>, which throws a
  SyntaxError on malformed text.
\<close>

definition todoData_try :: "(jsstring \<Rightarrow> exn + jsval) \<Rightarrow> jsstring \<Rightarrow> jsval \<Rightarrow> exn + jsval" where
  "todoData_try JSON_parse c todoData =
     (case match_braces c of
        None \<Rightarrow> Inr todoData
      | Some jsonMatch \<Rightarrow>
          (case JSON_parse jsonMatch of
             Inl e \<Rightarrow> Inl e
           | Inr parsed \<Rightarrow>
               (case get_newTodos parsed of
                  Inl e \<Rightarrow> Inl e
                | Inr newTodos \<Rightarrow>
                    if truthy newTodos \<and> isArray newTodos then Inr newTodos
                    else Inr todoData)))"

text \<open>
  The \<open>else if (block.content) { try ... catch (e) { } }\<close> branch: the handler is
  empty, so an exception of the body leaves \<open>todoData\<close> as it was.
\<close>

definition todoData_from_content :: "(jsstring \<Rightarrow> exn + jsval) \<Rightarrow> ContentBlock \<Rightarrow> jsval \<Rightarrow> exn + jsval" where
  "todoData_from_content JSON_parse block todoData =
     (case content block of
        None \<Rightarrow> Inr todoData
      | Some c \<Rightarrow>
          if c \<noteq> [] then
            (case todoData_try JSON_parse c todoData of
               Inl e \<Rightarrow> Inr todoData
             | Inr v \<Rightarrow> Inr v)
          else Inr todoData)"

text \<open>
  The value of \<open>todoData\<close> after the extraction of \<open>ToolResultBlock\<close>, or the
  exception that leaves the component: the property read of the first branch stands
  outside the \<open>try\<close>.
\<close>

definition ToolResultBlock_todoData :: "(jsstring \<Rightarrow> exn + jsval) \<Rightarrow> ContentBlock \<Rightarrow> exn + jsval" where
  "ToolResultBlock_todoData JSON_parse block =
     (let todoData = JNull in
      if ToolResultBlock_isTodoResult block then
        (if truthy (tool_use_result block) then
           (case get_newTodos (tool_use_result block) of
              Inl e \<Rightarrow> Inl e
            | Inr newTodos \<Rightarrow>
                if truthy newTodos then Inr newTodos
                else todoData_from_content JSON_parse block todoData)
         else todoData_from_content JSON_parse block todoData)
      else Inr todoData)"

section \<open>Search results: \<open>src/components/AppSidebar.tsx\<close>\<close>

record ChatSession =
  id' :: jsstring
  title :: jsstring
  timestamp :: jsstring
  project_path :: jsstring
  message_count :: int
  last_updated :: jsstring

record ProjectFolder =
  folder_name :: jsstring
  path :: jsstring
  chat_sessions :: "ChatSession list"

record SearchResult =
  session_id :: jsstring
  message_uuid :: jsstring
  snippet :: jsstring
  match_type :: jsstring

definition ALL_MATCH_TYPES :: "jsstring list" where
  "ALL_MATCH_TYPES =
     [lit ''content'', lit ''thinking'', lit ''tool_name'', lit ''tool_input'',
      lit ''tool_result'', lit ''tool_structured_result'']"

text \<open>
  \<open>searchResults?.filter(result => activeFilters.has(result.match_type))\<close>:
  \<open>searchResults\<close> is \<open>undefined\<close> until the query has data.
\<close>

definition filteredResults :: "SearchResult list option \<Rightarrow> jsstring set \<Rightarrow> SearchResult list option" where
  "filteredResults searchResults activeFilters =
     map_option (filter (\<lambda>result. match_type result \<in> activeFilters)) searchResults"

text \<open>
  The \<open>for (const project of projects)\<close> loop of \<open>handleSearchResultClick\<close>: the
  session handed to \<open>onSelectSession\<close> before the early \<open>return\<close>, if any.
\<close>

fun find_session :: "ProjectFolder list \<Rightarrow> SearchResult \<Rightarrow> ChatSession option" where
  "find_session [] result = None"
| "find_session (project # rest) result =
     (case find (\<lambda>s. id' s = session_id result) (chat_sessions project) of
        Some session \<Rightarrow> Some session
      | None \<Rightarrow> find_session rest result)"

text \<open>
  The fallback session. The source reads the clock twice, once for each of the two
  time fields: \<open>now1\<close> and \<open>now2\<close> are the two results of
  \<open>new Date().toISOString()\<close>, in the order of evaluation.
\<close>

definition fallbackSession :: "jsstring \<Rightarrow> jsstring \<Rightarrow> SearchResult \<Rightarrow> ChatSession" where
  "fallbackSession now1 now2 result =
     \<lparr> id' = session_id result,
       title = lit ''Search Result: '' @ slice (snippet result) 0 50 @ lit ''...'',
       timestamp = now1,
       project_path = [],
       message_count = 0,
       last_updated = now2 \<rparr>"

text \<open>
  \<open>handleSearchResultClick\<close>: the session it passes to \<open>onSelectSession\<close>.
  \<open>projects\<close> is \<open>undefined\<close> until the project query has data.
\<close>

definition handleSearchResultClick ::
  "ProjectFolder list option \<Rightarrow> jsstring \<Rightarrow> jsstring \<Rightarrow> SearchResult \<Rightarrow> ChatSession" where
  "handleSearchResultClick projects now1 now2 result =
     (case (case projects of None \<Rightarrow> None | Some ps \<Rightarrow> find_session ps result) of
        Some session \<Rightarrow> session
      | None \<Rightarrow> fallbackSession now1 now2 result)"

section \<open>Example inputs\<close>

text \<open>A block with no fields at all, and blocks that set one or two fields of it.\<close>

definition no_fields :: ContentBlock where
  "no_fields =
     \<lparr> block_type = None, type' = None, text' = None, name = None, input = JUndefined,
       tool_use_id = None, content = None, tool_use_result = JUndefined, thinking = None \<rparr>"

definition text_block :: ContentBlock where
  "text_block = no_fields \<lparr> block_type := Some (lit ''text''), text' := Some (lit ''hi'') \<rparr>"

definition legacy_thinking_block :: ContentBlock where
  "legacy_thinking_block = no_fields \<lparr> type' := Some (lit ''thinking'') \<rparr>"

definition tool_use_block :: ContentBlock where
  "tool_use_block =
     no_fields \<lparr> block_type := Some [], type' := Some (lit ''tool_use''),
                 name := Some (lit ''Bash'') \<rparr>"

definition tool_result_block :: ContentBlock where
  "tool_result_block =
     no_fields \<lparr> block_type := Some (lit ''tool_result''), type' := Some (lit ''text''),
                 content := Some (lit ''ok'') \<rparr>"

definition image_block :: ContentBlock where
  "image_block = no_fields \<lparr> block_type := Some (lit ''image'') \<rparr>"

text \<open>
  Tool results. \<open>well_formed_json\<close> is the text \<open>{"newTodos":[1]}\<close> and
  \<open>string_json\<close> the text \<open>{"newTodos":"abc"}\<close>. \<open>example_parse\<close> agrees with
  \<open>JSON.parse\<close> on the texts matched in the examples: it parses these two and throws
  on \<open>malformed_json\<close>, whose key is not quoted.
\<close>

definition dquote :: jschar where
  "dquote = 34"

definition well_formed_json :: jsstring where
  "well_formed_json = lit ''{'' @ [dquote] @ lit ''newTodos'' @ [dquote] @ lit '':[1]}''"

definition string_json :: jsstring where
  "string_json =
     lit ''{'' @ [dquote] @ lit ''newTodos'' @ [dquote] @ lit '':'' @ [dquote] @ lit ''abc''
       @ [dquote] @ lit ''}''"

definition example_parse :: "jsstring \<Rightarrow> exn + jsval" where
  "example_parse s =
     (if s = well_formed_json then Inr (JObject [(lit ''newTodos'', JArray [JNumber 1])])
      else if s = string_json then Inr (JObject [(lit ''newTodos'', JString (lit ''abc''))])
      else Inl SyntaxError)"

definition one_task :: jsval where
  "one_task =
     JArray [JObject [(lit ''id'', JString (lit ''1'')), (lit ''content'', JString (lit ''ship'')),
                      (lit ''status'', JString (lit ''pending'')),
                      (lit ''priority'', JString (lit ''high''))]]"

definition malformed_json :: jsstring where
  "malformed_json = lit ''{newTodos: oops}''"

definition malformed_text :: jsstring where
  "malformed_text = lit ''Todos have been modified successfully'' @ lit '' '' @ malformed_json"

definition unmarked_text :: jsstring where
  "unmarked_text = lit ''TODO LIST: '' @ well_formed_json"

definition scraped_text :: jsstring where
  "scraped_text = lit ''Updated the '' @ lit ''todo list'' @ lit '': '' @ well_formed_json @ lit '' done''"

definition no_json_text :: jsstring where
  "no_json_text = lit ''Todos have been modified successfully'' @ lit '' but no json here''"

definition string_todos_text :: jsstring where
  "string_todos_text = lit ''Todos have been modified successfully'' @ lit '' '' @ well_formed_json"

definition string_scraped_text :: jsstring where
  "string_scraped_text = lit ''Todos have been modified successfully'' @ lit '' '' @ string_json"

definition structured_todo_block :: ContentBlock where
  "structured_todo_block =
     no_fields \<lparr> content := Some malformed_text,
                 tool_use_result := JObject [(lit ''newTodos'', one_task)] \<rparr>"

definition unmarked_block :: ContentBlock where
  "unmarked_block =
     no_fields \<lparr> content := Some unmarked_text,
                 tool_use_result := JObject [(lit ''newTodos'', one_task)] \<rparr>"

definition scraped_todo_block :: ContentBlock where
  "scraped_todo_block = no_fields \<lparr> content := Some scraped_text \<rparr>"

definition malformed_todo_block :: ContentBlock where
  "malformed_todo_block =
     no_fields \<lparr> content := Some malformed_text,
                 tool_use_result := JObject [(lit ''oldTodos'', one_task)] \<rparr>"

definition no_json_todo_block :: ContentBlock where
  "no_json_todo_block = no_fields \<lparr> content := Some no_json_text \<rparr>"

definition string_todos_block :: ContentBlock where
  "string_todos_block =
     no_fields \<lparr> content := Some string_todos_text,
                 tool_use_result := JObject [(lit ''newTodos'', JString (lit ''abc''))] \<rparr>"

definition both_sources_block :: ContentBlock where
  "both_sources_block =
     no_fields \<lparr> content := Some string_todos_text,
                 tool_use_result := JObject [(lit ''newTodos'', one_task)] \<rparr>"

definition string_scraped_block :: ContentBlock where
  "string_scraped_block = no_fields \<lparr> content := Some string_scraped_text \<rparr>"

text \<open>
  Sessions, projects and search results. The second project holds two sessions with
  the same id; the snippet of \<open>stale_hit\<close> has 60 characters.
\<close>

definition session_a :: ChatSession where
  "session_a =
     \<lparr> id' = lit ''a'', title = lit ''Alpha'', timestamp = lit ''2025-01-01'',
       project_path = lit ''/p1'', message_count = 3, last_updated = lit ''2025-01-02'' \<rparr>"

definition session_b :: ChatSession where
  "session_b =
     \<lparr> id' = lit ''b'', title = lit ''Beta'', timestamp = lit ''2025-02-01'',
       project_path = lit ''/p2'', message_count = 5, last_updated = lit ''2025-02-02'' \<rparr>"

definition session_b_again :: ChatSession where
  "session_b_again =
     \<lparr> id' = lit ''b'', title = lit ''Beta again'', timestamp = lit ''2025-03-01'',
       project_path = lit ''/p2'', message_count = 7, last_updated = lit ''2025-03-02'' \<rparr>"

definition example_projects :: "ProjectFolder list" where
  "example_projects =
     [\<lparr> folder_name = lit ''p1'', path = lit ''/p1'', chat_sessions = [session_a] \<rparr>,
      \<lparr> folder_name = lit ''p2'', path = lit ''/p2'',
        chat_sessions = [session_b, session_b_again] \<rparr>]"

definition hit_b :: SearchResult where
  "hit_b =
     \<lparr> session_id = lit ''b'', message_uuid = lit ''m1'', snippet = lit ''found it'',
       match_type = lit ''content'' \<rparr>"

definition stale_hit :: SearchResult where
  "stale_hit =
     \<lparr> session_id = lit ''zz'', message_uuid = lit ''m2'',
       snippet = lit ''0123456789012345678901234567890123456789012345678901234567'' @ lit ''89'',
       match_type = lit ''tool_name'' \<rparr>"

definition thinking_hit :: SearchResult where
  "thinking_hit =
     \<lparr> session_id = lit ''a'', message_uuid = lit ''m3'', snippet = lit ''hmm'',
       match_type = lit ''thinking'' \<rparr>"

definition example_results :: "SearchResult list" where
  "example_results = [hit_b, stale_hit, thinking_hit, hit_b]"

text \<open>Two readings of the clock, a millisecond apart.\<close>

definition clock1 :: jsstring where
  "clock1 = lit ''2025-06-01T12:00:00.000Z''"

definition clock2 :: jsstring where
  "clock2 = lit ''2025-06-01T12:00:00.001Z''"

text \<open>
  A raw segment of a type the renderer does not know, with the text
  \<open>JSON.stringify\<close> gives for it. \<open>example_quote\<close> and \<open>example_number\<close> agree with
  the built-in quoting and number printing on the strings (no character to escape)
  and the number (1) of this segment.
\<close>

definition example_quote :: "jsstring \<Rightarrow> jsstring" where
  "example_quote s = [dquote] @ s @ [dquote]"

definition example_number :: "rat \<Rightarrow> jsstring" where
  "example_number n = lit ''1''"

definition image_segment :: jsval where
  "image_segment = JObject [(lit ''type'', JString (lit ''image'')), (lit ''width'', JNumber 1)]"

definition image_segment_json :: jsstring where
  "image_segment_json =
     lit ''{'' @ [newline] @ lit ''  '' @ [dquote] @ lit ''type'' @ [dquote] @ lit '': ''
       @ [dquote] @ lit ''image'' @ [dquote] @ lit '','' @ [newline] @ lit ''  '' @ [dquote]
       @ lit ''width'' @ [dquote] @ lit '': 1'' @ [newline] @ lit ''}''"

definition string_payload_no_json_block :: ContentBlock where
  "string_payload_no_json_block =
     no_fields \<lparr> content := Some no_json_text,
                 tool_use_result := JObject [(lit ''newTodos'', JString (lit ''abc''))] \<rparr>"

section \<open>Text repair: properties\<close>

declare processBackspaces_loop.simps [simp del]

lemma slice_drop_last: "slice s 0 (- 1) = butlast s"
proof -
  have "nat (max (int (length s) - 1) 0) = length s - 1"
    by arith
  then show ?thesis
    by (simp add: slice_def butlast_conv_take)
qed

lemma loop_is_pass:
  "processBackspaces_loop s i result = repair_pass result (drop i s)"
proof (induction s i result rule: processBackspaces_loop.induct)
  case (1 s i result)
  show ?case
  proof (cases "i < length s")
    case True
    then have d: "drop i s = s ! i # drop (Suc i) s"
      by (simp add: Cons_nth_drop_Suc)
    from True "1" show ?thesis
      by (subst processBackspaces_loop.simps) (simp add: d slice_drop_last Let_def)
  next
    case False
    then show ?thesis
      by (subst processBackspaces_loop.simps) simp
  qed
qed

lemma includes_single: "String_includes s [c] = (c \<in> set s)"
  by (induction s) auto

lemma pass_without_backspace:
  "backspace \<notin> set s \<Longrightarrow> repair_pass buf s = buf @ s"
  by (induction s arbitrary: buf) auto

lemma pass_backspace_free:
  "backspace \<notin> set buf \<Longrightarrow> backspace \<notin> set (repair_pass buf s)"
proof (induction s arbitrary: buf)
  case Nil
  then show ?case by simp
next
  case (Cons c cs)
  have "backspace \<notin> set (butlast buf)"
    using Cons.prems by (auto dest: in_set_butlastD)
  with Cons show ?case by simp
qed

lemma processBackspaces_pass: "processBackspaces s = repair_pass [] s"
proof (cases "backspace \<in> set s")
  case True
  then show ?thesis
    by (simp add: processBackspaces_def includes_single loop_is_pass)
next
  case False
  then show ?thesis
    by (simp add: processBackspaces_def includes_single pass_without_backspace)
qed

lemma processBackspaces_backspace_free: "backspace \<notin> set (processBackspaces s)"
  by (simp add: processBackspaces_pass pass_backspace_free)

text \<open>
  C3. For every input string, \<open>processBackspaces\<close> is the single left-to-right pass
  with an output buffer: a backspace (code unit 8) removes the last character
  appended when the buffer is not empty and does nothing when it is empty, and every
  other character is appended unchanged. The fast path for a text without any
  backspace gives the same result as the pass. In particular "ab\bc" becomes "ac"
  and "\babc" becomes "abc".
\<close>

theorem processBackspaces_is_single_pass:
  "processBackspaces s = repair_spec s
   \<and> backspace = 8
   \<and> processBackspaces (lit ''ab'' @ [backspace] @ lit ''c'') = lit ''ac''
   \<and> processBackspaces ([backspace] @ lit ''abc'') = lit ''abc''"
proof -
  have "processBackspaces s = repair_spec s"
    by (simp add: processBackspaces_pass repair_spec_def)
  moreover have "processBackspaces (lit ''ab'' @ [backspace] @ lit ''c'') = lit ''ac''"
    by (simp add: processBackspaces_pass lit_def backspace_def)
  moreover have "processBackspaces ([backspace] @ lit ''abc'') = lit ''abc''"
    by (simp add: processBackspaces_pass lit_def backspace_def)
  ultimately show ?thesis
    by (simp add: backspace_def)
qed

text \<open>
  C8. \<open>processBackspaces\<close> is the identity on a string without backspace
  characters, and it is idempotent: its result holds no backspace, so a second
  application returns it unchanged.
\<close>

theorem processBackspaces_identity_idempotent:
  "(backspace \<notin> set s \<longrightarrow> processBackspaces s = s)
   \<and> processBackspaces (processBackspaces s) = processBackspaces s"
proof -
  have id: "processBackspaces t = t" if "backspace \<notin> set t" for t
    using that by (simp add: processBackspaces_def includes_single)
  have "processBackspaces (processBackspaces s) = processBackspaces s"
    by (rule id) (rule processBackspaces_backspace_free)
  with id show ?thesis by blast
qed

theorem processBackspaces_identity_idempotent_witness:
  "backspace \<notin> set (lit ''abc'')
   \<and> processBackspaces (lit ''abc'') = lit ''abc''
   \<and> processBackspaces (processBackspaces (lit ''ab'' @ [backspace] @ lit ''c'')) = lit ''ac''"
proof -
  have h: "backspace \<notin> set (lit ''abc'')"
    by (simp add: lit_def backspace_def)
  have e: "processBackspaces (lit ''ab'' @ [backspace] @ lit ''c'') = lit ''ac''"
    by (simp add: processBackspaces_pass lit_def backspace_def)
  from processBackspaces_identity_idempotent [of "lit ''abc''"] h
  have a: "processBackspaces (lit ''abc'') = lit ''abc''"
    by blast
  from processBackspaces_identity_idempotent [of "lit ''ab'' @ [backspace] @ lit ''c''"]
  have "processBackspaces (processBackspaces (lit ''ab'' @ [backspace] @ lit ''c''))
        = processBackspaces (lit ''ab'' @ [backspace] @ lit ''c'')"
    by blast
  with e have "processBackspaces (processBackspaces (lit ''ab'' @ [backspace] @ lit ''c'')) = lit ''ac''"
    by simp
  with h a show ?thesis by blast
qed

section \<open>Content classification: properties\<close>

lemma tags_distinct:
  "lit ''text'' \<noteq> lit ''tool_use''" "lit ''text'' \<noteq> lit ''tool_result''"
  "lit ''text'' \<noteq> lit ''thinking''" "lit ''tool_use'' \<noteq> lit ''tool_result''"
  "lit ''tool_use'' \<noteq> lit ''thinking''" "lit ''tool_result'' \<noteq> lit ''thinking''"
  "lit ''unknown'' \<noteq> lit ''text''" "lit ''unknown'' \<noteq> lit ''tool_use''"
  "lit ''unknown'' \<noteq> lit ''tool_result''" "lit ''unknown'' \<noteq> lit ''thinking''"
  "lit ''text'' \<noteq> []" "lit ''tool_use'' \<noteq> []"
  "lit ''tool_result'' \<noteq> []" "lit ''thinking'' \<noteq> []"
  by (simp_all add: lit_def)

lemma or_default_empty: "or_default a [] = (case a of None \<Rightarrow> [] | Some s \<Rightarrow> s)"
  by (simp add: or_default_def split: option.splits)

lemma blockType_primary:
  "block_type b = Some t \<Longrightarrow> t \<noteq> [] \<Longrightarrow> blockType b = t"
  by (simp add: blockType_def or_else_def or_default_def truthy_str_def)

lemma blockType_secondary:
  "block_type b = None \<or> block_type b = Some [] \<Longrightarrow> type' b = Some u \<Longrightarrow> u \<noteq> []
   \<Longrightarrow> blockType b = u"
  by (auto simp: blockType_def or_else_def or_default_def truthy_str_def)

lemma blockType_unknown:
  "block_type b = None \<or> block_type b = Some [] \<Longrightarrow> type' b = None \<or> type' b = Some []
   \<Longrightarrow> blockType b = lit ''unknown''"
  by (auto simp: blockType_def or_else_def or_default_def truthy_str_def)

lemma classify_text:
  "blockType b = lit ''text'' \<Longrightarrow>
   classify b = Text (case text' b of None \<Rightarrow> [] | Some s \<Rightarrow> s)"
  by (simp add: classify_def ContentBlockRenderer_def or_default_empty)

lemma classify_tool_use:
  "blockType b = lit ''tool_use'' \<Longrightarrow> classify b = ToolInvocation (name b) (input b)"
  by (simp add: classify_def ContentBlockRenderer_def tags_distinct [symmetric])

lemma classify_tool_result:
  "blockType b = lit ''tool_result'' \<Longrightarrow>
   classify b = ToolOutput (tool_use_id b) (content b) (tool_use_result b)"
  by (simp add: classify_def ContentBlockRenderer_def tags_distinct [symmetric])

lemma classify_thinking:
  "blockType b = lit ''thinking'' \<Longrightarrow>
   classify b = ReasoningTrace (case thinking b of None \<Rightarrow> [] | Some s \<Rightarrow> s)"
  by (simp add: classify_def ContentBlockRenderer_def tags_distinct [symmetric] or_default_empty)

lemma classify_other:
  "blockType b \<notin> set known_tags \<Longrightarrow> classify b = Unrecognized b"
  by (simp add: classify_def ContentBlockRenderer_def known_tags_def)

lemma blockType_known_iff:
  "blockType b \<in> set known_tags \<longleftrightarrow> effective_tag_spec b \<in> set known_tags"
  by (auto simp: blockType_def or_else_def or_default_def truthy_str_def effective_tag_spec_def
      known_tags_def tags_distinct tags_distinct [symmetric] split: option.splits)

lemma blockType_spec_on_known:
  "effective_tag_spec b \<in> set known_tags \<Longrightarrow> blockType b = effective_tag_spec b"
  by (auto simp: blockType_def or_else_def or_default_def truthy_str_def effective_tag_spec_def
      known_tags_def tags_distinct tags_distinct [symmetric] split: option.splits)

lemma classify_refines_spec: "classify b = classify_spec b"
proof (cases "effective_tag_spec b \<in> set known_tags")
  case True
  then have eq: "blockType b = effective_tag_spec b"
    by (rule blockType_spec_on_known)
  from True consider "blockType b = lit ''text''" | "blockType b = lit ''tool_use''"
    | "blockType b = lit ''tool_result''" | "blockType b = lit ''thinking''"
    by (auto simp: eq known_tags_def)
  then show ?thesis
  proof cases
    case 1
    then show ?thesis
      using classify_text [OF 1] by (simp add: classify_spec_def eq [symmetric])
  next
    case 2
    then show ?thesis
      using classify_tool_use [OF 2]
      by (simp add: classify_spec_def eq [symmetric] tags_distinct [symmetric])
  next
    case 3
    then show ?thesis
      using classify_tool_result [OF 3]
      by (simp add: classify_spec_def eq [symmetric] tags_distinct [symmetric])
  next
    case 4
    then show ?thesis
      using classify_thinking [OF 4]
      by (simp add: classify_spec_def eq [symmetric] tags_distinct [symmetric])
  qed
next
  case False
  then have "blockType b \<notin> set known_tags"
    by (simp add: blockType_known_iff)
  then have "classify b = Unrecognized b"
    by (rule classify_other)
  moreover from False have "classify_spec b = Unrecognized b"
    by (simp add: classify_spec_def known_tags_def)
  ultimately show ?thesis by simp
qed

lemma thinking_body_shown:
  "ThinkingBlock_body b =
     (if or_default (thinking b) [] \<noteq> [] then Some (MessageText (or_default (thinking b) []))
      else None)"
  by (simp add: ThinkingBlock_body_def or_default_def split: option.splits)

text \<open>
  C1. The effective tag is the primary field \<open>block_type\<close> when it is present and
  not empty, otherwise the secondary field \<open>type\<close> when that is present and not
  empty, otherwise "unknown" (in particular when both are absent). A block whose
  effective tag is "text", "tool_use", "tool_result" or "thinking" is classified as
  the corresponding variant (a text with body the \<open>text\<close> field or the empty
  string, a reasoning trace with body the \<open>thinking\<close> field or the empty string,
  which is the text \<open>ThinkingBlock\<close> shows unless it is empty) and never as
  unrecognized; a block with any other effective tag is unrecognized
  and carries the whole raw block. Altogether \<open>classify\<close> is the classifier of the
  specification.
\<close>

theorem classify_by_effective_tag:
  "(\<forall>t. block_type b = Some t \<and> t \<noteq> [] \<longrightarrow> blockType b = t)
   \<and> (\<forall>u. (block_type b = None \<or> block_type b = Some []) \<and> type' b = Some u \<and> u \<noteq> []
          \<longrightarrow> blockType b = u)
   \<and> ((block_type b = None \<or> block_type b = Some []) \<and> (type' b = None \<or> type' b = Some [])
          \<longrightarrow> blockType b = lit ''unknown'')
   \<and> (blockType b = lit ''text''
          \<longrightarrow> classify b = Text (case text' b of None \<Rightarrow> [] | Some s \<Rightarrow> s))
   \<and> (blockType b = lit ''tool_use'' \<longrightarrow> classify b = ToolInvocation (name b) (input b))
   \<and> (blockType b = lit ''tool_result''
          \<longrightarrow> classify b = ToolOutput (tool_use_id b) (content b) (tool_use_result b))
   \<and> (blockType b = lit ''thinking''
          \<longrightarrow> classify b = ReasoningTrace (case thinking b of None \<Rightarrow> [] | Some s \<Rightarrow> s))
   \<and> (blockType b \<notin> set known_tags \<longrightarrow> classify b = Unrecognized b)
   \<and> ((\<exists>x. classify b = Unrecognized x) \<longleftrightarrow> blockType b \<notin> set known_tags)
   \<and> ThinkingBlock_body b =
       (if (case thinking b of None \<Rightarrow> [] | Some s \<Rightarrow> s) = [] then None
        else Some (MessageText (case thinking b of None \<Rightarrow> [] | Some s \<Rightarrow> s)))
   \<and> classify b = classify_spec b"
proof -
  have known: "\<not> (\<exists>x. classify b = Unrecognized x)" if "blockType b \<in> set known_tags"
  proof -
    from that consider "blockType b = lit ''text''" | "blockType b = lit ''tool_use''"
      | "blockType b = lit ''tool_result''" | "blockType b = lit ''thinking''"
      by (auto simp: known_tags_def)
    then show ?thesis
    proof cases
      case 1
      then show ?thesis by (simp add: classify_text)
    next
      case 2
      then show ?thesis by (simp add: classify_tool_use)
    next
      case 3
      then show ?thesis by (simp add: classify_tool_result)
    next
      case 4
      then show ?thesis by (simp add: classify_thinking)
    qed
  qed
  have iff: "(\<exists>x. classify b = Unrecognized x) \<longleftrightarrow> blockType b \<notin> set known_tags"
    using known classify_other [of b] by blast
  have body: "ThinkingBlock_body b =
       (if (case thinking b of None \<Rightarrow> [] | Some s \<Rightarrow> s) = [] then None
        else Some (MessageText (case thinking b of None \<Rightarrow> [] | Some s \<Rightarrow> s)))"
    by (simp add: thinking_body_shown or_default_empty)
  show ?thesis
    using blockType_primary [of b] blockType_secondary [of b] blockType_unknown [of b]
      classify_text [of b] classify_tool_use [of b] classify_tool_result [of b]
      classify_thinking [of b] classify_other [of b] iff body classify_refines_spec [of b]
    by blast
qed

theorem classify_by_effective_tag_witness:
  "block_type text_block = Some (lit ''text'') \<and> lit ''text'' \<noteq> []
   \<and> blockType text_block = lit ''text'' \<and> classify text_block = Text (lit ''hi'')
   \<and> block_type legacy_thinking_block = None
   \<and> type' legacy_thinking_block = Some (lit ''thinking'')
   \<and> blockType legacy_thinking_block = lit ''thinking''
   \<and> classify legacy_thinking_block = ReasoningTrace []
   \<and> block_type tool_use_block = Some [] \<and> blockType tool_use_block = lit ''tool_use''
   \<and> classify tool_use_block = ToolInvocation (Some (lit ''Bash'')) JUndefined
   \<and> blockType tool_result_block = lit ''tool_result''
   \<and> classify tool_result_block = ToolOutput None (Some (lit ''ok'')) JUndefined
   \<and> block_type no_fields = None \<and> type' no_fields = None
   \<and> blockType no_fields = lit ''unknown'' \<and> lit ''unknown'' \<notin> set known_tags
   \<and> classify no_fields = Unrecognized no_fields
   \<and> blockType image_block = lit ''image'' \<and> lit ''image'' \<notin> set known_tags
   \<and> classify image_block = Unrecognized image_block"
proof -
  have h1: "block_type text_block = Some (lit ''text'') \<and> lit ''text'' \<noteq> []"
    by (simp add: text_block_def no_fields_def tags_distinct)
  from classify_by_effective_tag [of text_block] h1
  have t1: "blockType text_block = lit ''text''" by blast
  from classify_by_effective_tag [of text_block] t1
  have "classify text_block = Text (case text' text_block of None \<Rightarrow> [] | Some s \<Rightarrow> s)"
    by blast
  then have c1: "classify text_block = Text (lit ''hi'')"
    by (simp add: text_block_def no_fields_def)
  have h2: "block_type legacy_thinking_block = None
            \<and> type' legacy_thinking_block = Some (lit ''thinking'') \<and> lit ''thinking'' \<noteq> []"
    by (simp add: legacy_thinking_block_def no_fields_def tags_distinct)
  from classify_by_effective_tag [of legacy_thinking_block] h2
  have t2: "blockType legacy_thinking_block = lit ''thinking''" by blast
  from classify_by_effective_tag [of legacy_thinking_block] t2
  have "classify legacy_thinking_block
        = ReasoningTrace (case thinking legacy_thinking_block of None \<Rightarrow> [] | Some s \<Rightarrow> s)"
    by blast
  then have c2: "classify legacy_thinking_block = ReasoningTrace []"
    by (simp add: legacy_thinking_block_def no_fields_def)
  have h3: "block_type tool_use_block = Some []
            \<and> type' tool_use_block = Some (lit ''tool_use'') \<and> lit ''tool_use'' \<noteq> []"
    by (simp add: tool_use_block_def no_fields_def tags_distinct)
  from classify_by_effective_tag [of tool_use_block] h3
  have t3: "blockType tool_use_block = lit ''tool_use''" by blast
  from classify_by_effective_tag [of tool_use_block] t3
  have "classify tool_use_block = ToolInvocation (name tool_use_block) (input tool_use_block)"
    by blast
  then have c3: "classify tool_use_block = ToolInvocation (Some (lit ''Bash'')) JUndefined"
    by (simp add: tool_use_block_def no_fields_def)
  have h4: "block_type tool_result_block = Some (lit ''tool_result'') \<and> lit ''tool_result'' \<noteq> []"
    by (simp add: tool_result_block_def no_fields_def tags_distinct)
  from classify_by_effective_tag [of tool_result_block] h4
  have t4: "blockType tool_result_block = lit ''tool_result''" by blast
  from classify_by_effective_tag [of tool_result_block] t4
  have "classify tool_result_block
        = ToolOutput (tool_use_id tool_result_block) (content tool_result_block)
            (tool_use_result tool_result_block)"
    by blast
  then have c4: "classify tool_result_block = ToolOutput None (Some (lit ''ok'')) JUndefined"
    by (simp add: tool_result_block_def no_fields_def)
  have h5: "block_type no_fields = None \<and> type' no_fields = None"
    by (simp add: no_fields_def)
  from classify_by_effective_tag [of no_fields] h5
  have t5: "blockType no_fields = lit ''unknown''" by blast
  have k5: "lit ''unknown'' \<notin> set known_tags"
    by (simp add: known_tags_def tags_distinct)
  from classify_by_effective_tag [of no_fields] t5 k5
  have c5: "classify no_fields = Unrecognized no_fields" by simp
  have h6: "block_type image_block = Some (lit ''image'') \<and> lit ''image'' \<noteq> []"
    by (simp add: image_block_def no_fields_def lit_def)
  from classify_by_effective_tag [of image_block] h6
  have t6: "blockType image_block = lit ''image''" by blast
  have k6: "lit ''image'' \<notin> set known_tags"
    by (simp add: known_tags_def lit_def)
  from classify_by_effective_tag [of image_block] t6 k6
  have c6: "classify image_block = Unrecognized image_block" by simp
  from h1 t1 c1 h2 t2 c2 h3 t3 c3 t4 c4 h5 t5 k5 c5 t6 k6 c6 show ?thesis
    by simp
qed

declare decimal.simps [simp del]

lemma get_property_defined:
  "block \<noteq> JNull \<Longrightarrow> block \<noteq> JUndefined \<Longrightarrow> \<exists>v. get_property k block = Inr v"
  by (cases block) simp_all

lemma Object_keys_defined:
  "block \<noteq> JNull \<Longrightarrow> block \<noteq> JUndefined \<Longrightarrow> \<exists>ks. Object_keys block = Inr ks"
  by (cases block) simp_all

lemma raw_renderer_returns:
  assumes "block \<noteq> JNull" "block \<noteq> JUndefined"
  shows "\<exists>el. ContentBlockRenderer_raw quote num block = Inr el"
proof -
  obtain bt where bt: "get_property (lit ''block_type'') block = Inr bt"
    using get_property_defined [OF assms] by blast
  obtain ty where ty: "get_property (lit ''type'') block = Inr ty"
    using get_property_defined [OF assms] by blast
  obtain tx where tx: "get_property (lit ''text'') block = Inr tx"
    using get_property_defined [OF assms] by blast
  obtain ks where ks: "Object_keys block = Inr ks"
    using Object_keys_defined [OF assms] by blast
  show ?thesis
    by (simp add: ContentBlockRenderer_raw_def bt ty tx ks Let_def)
qed

lemma raw_renderer_throws:
  "block = JNull \<or> block = JUndefined \<Longrightarrow>
   ContentBlockRenderer_raw quote num block = Inl TypeError"
  by (auto simp: ContentBlockRenderer_raw_def)

lemma lit_eq_iff: "lit a = lit b \<longleftrightarrow> a = b"
proof -
  have "inj (\<lambda>c::char. (word_of_nat (of_char c) :: 16 word))"
  proof (rule injI)
    fix x y :: char
    assume e: "(word_of_nat (of_char x) :: 16 word) = word_of_nat (of_char y)"
    have small: "(of_char c :: nat) < 2 ^ 16" for c :: char
    proof -
      have "(of_char c :: nat) = of_char c mod 256"
        using of_char_of [of "of_char c :: nat"] by simp
      then have "(of_char c :: nat) < 256"
        by (metis mod_less_divisor zero_less_numeral)
      then have "(of_char c :: nat) < 65536"
        by linarith
      then show ?thesis by simp
    qed
    from small [of x] small [of y]
    have "(of_char x :: nat) < 2 ^ 16" "(of_char y :: nat) < 2 ^ 16" .
    with e have "(of_char x :: nat) = of_char y"
      by (simp add: word_of_nat_eq_iff take_bit_nat_eq_self)
    then show "x = y" by simp
  qed
  then show ?thesis
    by (simp add: lit_def inj_map_eq_map)
qed

lemma lookup_string_field:
  "map_of (string_field k a @ rest) (lit k') =
     (if k = k' then (case a of None \<Rightarrow> map_of rest (lit k') | Some s \<Rightarrow> Some (JString s))
      else map_of rest (lit k'))"
  by (simp add: string_field_def lit_eq_iff split: option.splits)

lemma lookup_any_field:
  "map_of (any_field k v @ rest) (lit k') =
     (if k = k' \<and> v \<noteq> JUndefined then Some v else map_of rest (lit k'))"
  by (simp add: any_field_def lit_eq_iff)

lemma lookup_last_field:
  "map_of (string_field k a) (lit k') = (if k = k' then map_option JString a else None)"
  by (simp add: string_field_def lit_eq_iff split: option.splits)

lemma raw_block_type:
  "get_property (lit ''block_type'') (raw_of b) =
     Inr (case block_type b of None \<Rightarrow> JUndefined | Some s \<Rightarrow> JString s)"
  by (simp add: raw_of_def lookup_string_field lookup_any_field lookup_last_field
      del: map_of_append split: option.splits)

lemma raw_type:
  "get_property (lit ''type'') (raw_of b) =
     Inr (case type' b of None \<Rightarrow> JUndefined | Some s \<Rightarrow> JString s)"
  by (simp add: raw_of_def lookup_string_field lookup_any_field lookup_last_field
      del: map_of_append split: option.splits)

lemma raw_text:
  "get_property (lit ''text'') (raw_of b) =
     Inr (case text' b of None \<Rightarrow> JUndefined | Some s \<Rightarrow> JString s)"
  by (simp add: raw_of_def lookup_string_field lookup_any_field lookup_last_field
      del: map_of_append split: option.splits)

lemma raw_renderer_on_typed_block:
  "ContentBlockRenderer_raw quote num (raw_of b)
   = Inr (raw_element_of quote num (ContentBlockRenderer b))"
proof -
  obtain ks where ks: "Object_keys (raw_of b) = Inr ks"
    by (simp add: raw_of_def)
  show ?thesis
    by (cases "block_type b"; cases "type' b"; cases "text' b")
      (simp_all add: ContentBlockRenderer_raw_def ContentBlockRenderer_def blockType_def
        or_else_def or_default_def truthy_str_def raw_block_type raw_type raw_text ks Let_def
        tags_distinct tags_distinct [symmetric])
qed

lemma raw_renderer_no_fields:
  "ContentBlockRenderer_raw quote num (JObject [])
   = Inr (RawUnknownBlockType (JString (lit ''unknown'')) [] (Some (lit ''{}'')))"
  by (simp add: ContentBlockRenderer_raw_def lit_eq_iff)

lemma raw_renderer_image_segment:
  "ContentBlockRenderer_raw example_quote example_number image_segment
   = Inr (RawUnknownBlockType (JString (lit ''image'')) (lit ''type, width'')
            (Some image_segment_json))"
  by (simp add: ContentBlockRenderer_raw_def image_segment_def image_segment_json_def
      example_quote_def example_number_def lit_def gap_def newline_def dquote_def)

text \<open>
  C9. Classification is total. On the segment as it is at run time the renderer
  can throw at a property read and at \<open>Object.keys\<close>, and it does so exactly when
  the segment itself is \<open>null\<close> or \<open>undefined\<close> (a TypeError). For every other
  value, so for every object whatever its fields, it returns an element. For the
  object with no fields it returns the debug panel of the \<open>default\<close> branch with the
  tag "unknown", no key and the text \<open>{}\<close>: the fallback does not throw. On the
  object of a typed block the raw renderer returns the element of
  \<open>ContentBlockRenderer\<close>, and the typed block with no fields is unrecognized.
\<close>

theorem ContentBlockRenderer_throws_only_on_null:
  "((\<exists>el. ContentBlockRenderer_raw quote num block = Inr el)
      \<longleftrightarrow> block \<noteq> JNull \<and> block \<noteq> JUndefined)
   \<and> (block = JNull \<or> block = JUndefined
        \<longrightarrow> ContentBlockRenderer_raw quote num block = Inl TypeError)
   \<and> (\<exists>el. ContentBlockRenderer_raw quote num (JObject kvs) = Inr el)
   \<and> ContentBlockRenderer_raw quote num (JObject [])
       = Inr (RawUnknownBlockType (JString (lit ''unknown'')) [] (Some (lit ''{}'')))
   \<and> ContentBlockRenderer_raw quote num (raw_of b)
       = Inr (raw_element_of quote num (ContentBlockRenderer b))
   \<and> raw_of no_fields = JObject []
   \<and> classify no_fields = Unrecognized no_fields"
proof -
  have throws: "ContentBlockRenderer_raw quote num block = Inl TypeError"
    if "block = JNull \<or> block = JUndefined"
    using that by (rule raw_renderer_throws)
  have returns: "\<exists>el. ContentBlockRenderer_raw quote num block = Inr el"
    if "block \<noteq> JNull \<and> block \<noteq> JUndefined"
    using that by (auto intro: raw_renderer_returns)
  have iff: "(\<exists>el. ContentBlockRenderer_raw quote num block = Inr el)
      \<longleftrightarrow> block \<noteq> JNull \<and> block \<noteq> JUndefined"
  proof
    assume "\<exists>el. ContentBlockRenderer_raw quote num block = Inr el"
    with throws show "block \<noteq> JNull \<and> block \<noteq> JUndefined"
      by force
  next
    assume "block \<noteq> JNull \<and> block \<noteq> JUndefined"
    then show "\<exists>el. ContentBlockRenderer_raw quote num block = Inr el"
      by (rule returns)
  qed
  have empty: "raw_of no_fields = JObject []"
    by (simp add: raw_of_def no_fields_def string_field_def any_field_def)
  have "blockType no_fields = lit ''unknown''"
    by (rule blockType_unknown) (simp_all add: no_fields_def)
  then have unrecognized: "classify no_fields = Unrecognized no_fields"
    by (simp add: classify_def ContentBlockRenderer_def tags_distinct)
  have object: "\<exists>el. ContentBlockRenderer_raw quote num (JObject kvs) = Inr el"
    by (rule raw_renderer_returns) simp_all
  from iff throws object raw_renderer_no_fields [of quote num]
    raw_renderer_on_typed_block [of quote num b] empty unrecognized
  show ?thesis
    by blast
qed

theorem ContentBlockRenderer_throws_only_on_null_witness:
  "image_segment \<noteq> JNull \<and> image_segment \<noteq> JUndefined
   \<and> (\<exists>el. ContentBlockRenderer_raw example_quote example_number image_segment = Inr el)
   \<and> ContentBlockRenderer_raw example_quote example_number image_segment
       = Inr (RawUnknownBlockType (JString (lit ''image'')) (lit ''type, width'')
                (Some image_segment_json))
   \<and> ContentBlockRenderer_raw example_quote example_number JNull = Inl TypeError"
proof -
  note T = ContentBlockRenderer_throws_only_on_null
    [where quote = example_quote and num = example_number]
  have d: "image_segment \<noteq> JNull \<and> image_segment \<noteq> JUndefined"
    by (simp add: image_segment_def)
  then have r: "\<exists>el. ContentBlockRenderer_raw example_quote example_number image_segment = Inr el"
    by (rule T [where block = image_segment, THEN conjunct1, THEN iffD2])
  have "JNull = JNull \<or> JNull = JUndefined"
    by simp
  then have n: "ContentBlockRenderer_raw example_quote example_number JNull = Inl TypeError"
    by (rule T [where block = JNull, THEN conjunct2, THEN conjunct1, THEN mp])
  from d have d1: "image_segment \<noteq> JNull" and d2: "image_segment \<noteq> JUndefined"
    by simp_all
  from d1 d2 r raw_renderer_image_segment n show ?thesis
    by (intro conjI)
qed

section \<open>Task list extraction: properties\<close>

lemma includes_sublist: "String_includes s sub = sublist sub s"
  by (induction s) (auto simp: sublist_Cons_right)

lemma includes_inside: "String_includes (pre @ sub @ post) sub"
  by (simp add: includes_sublist)

lemma includes_at_start: "String_includes (sub @ post) sub"
  using includes_inside [of "[]" sub post] by simp

lemma markers_not_empty:
  "lit ''Todos have been modified successfully'' \<noteq> []" "lit ''todo list'' \<noteq> []"
  by (simp_all add: lit_def)

lemma isTodoResult_content:
  "ToolResultBlock_isTodoResult b \<Longrightarrow> \<exists>c. content b = Some c \<and> c \<noteq> []"
  by (cases "content b") (auto simp: ToolResultBlock_isTodoResult_def markers_not_empty)

lemma get_newTodos_truthy: "truthy v \<Longrightarrow> \<exists>w. get_newTodos v = Inr w"
  by (cases v) auto

lemma from_content_no_exception: "\<exists>v. todoData_from_content P b d = Inr v"
  by (simp add: todoData_from_content_def split: option.splits sum.splits)

lemma todoData_no_exception: "\<exists>v. ToolResultBlock_todoData P b = Inr v"
proof (cases "truthy (tool_use_result b)")
  case True
  then obtain w where "get_newTodos (tool_use_result b) = Inr w"
    using get_newTodos_truthy by blast
  then show ?thesis
    using from_content_no_exception [of P b JNull]
    by (auto simp: ToolResultBlock_todoData_def)
next
  case False
  then show ?thesis
    using from_content_no_exception [of P b JNull]
    by (auto simp: ToolResultBlock_todoData_def)
qed

lemma todoData_not_detected:
  "\<not> ToolResultBlock_isTodoResult b \<Longrightarrow> ToolResultBlock_todoData P b = Inr JNull"
  by (simp add: ToolResultBlock_todoData_def)

lemma todoData_structured:
  "ToolResultBlock_isTodoResult b \<Longrightarrow> truthy (tool_use_result b) \<Longrightarrow>
   get_newTodos (tool_use_result b) = Inr v \<Longrightarrow> truthy v \<Longrightarrow>
   ToolResultBlock_todoData P b = Inr v"
  by (simp add: ToolResultBlock_todoData_def)

lemma todoData_fallback:
  assumes "ToolResultBlock_isTodoResult b"
    and "\<not> (truthy (tool_use_result b)
             \<and> (\<exists>v. get_newTodos (tool_use_result b) = Inr v \<and> truthy v))"
  shows "ToolResultBlock_todoData P b = todoData_from_content P b JNull"
proof (cases "truthy (tool_use_result b)")
  case True
  then obtain w where w: "get_newTodos (tool_use_result b) = Inr w"
    using get_newTodos_truthy by blast
  with True assms(2) have "\<not> truthy w" by blast
  with True w assms(1) show ?thesis
    by (simp add: ToolResultBlock_todoData_def)
next
  case False
  with assms(1) show ?thesis
    by (simp add: ToolResultBlock_todoData_def)
qed

lemma from_content_cases:
  assumes "content b = Some c" and "c \<noteq> []"
  shows "match_braces c = None \<Longrightarrow> todoData_from_content P b JNull = Inr JNull"
    and "match_braces c = Some m \<Longrightarrow> P m = Inl e \<Longrightarrow>
         todoData_from_content P b JNull = Inr JNull"
    and "match_braces c = Some m \<Longrightarrow> P m = Inr parsed \<Longrightarrow>
         get_newTodos parsed = Inr (JArray xs) \<Longrightarrow>
         todoData_from_content P b JNull = Inr (JArray xs)"
    and "match_braces c = Some m \<Longrightarrow> P m = Inr parsed \<Longrightarrow>
         \<forall>xs. get_newTodos parsed \<noteq> Inr (JArray xs) \<Longrightarrow>
         todoData_from_content P b JNull = Inr JNull"
proof -
  show "match_braces c = None \<Longrightarrow> todoData_from_content P b JNull = Inr JNull"
    using assms by (simp add: todoData_from_content_def todoData_try_def)
  show "match_braces c = Some m \<Longrightarrow> P m = Inl e \<Longrightarrow>
        todoData_from_content P b JNull = Inr JNull"
    using assms by (simp add: todoData_from_content_def todoData_try_def)
  show "match_braces c = Some m \<Longrightarrow> P m = Inr parsed \<Longrightarrow>
        get_newTodos parsed = Inr (JArray xs) \<Longrightarrow>
        todoData_from_content P b JNull = Inr (JArray xs)"
    using assms by (simp add: todoData_from_content_def todoData_try_def)
  show "todoData_from_content P b JNull = Inr JNull"
    if m: "match_braces c = Some m" and p: "P m = Inr parsed"
      and n: "\<forall>xs. get_newTodos parsed \<noteq> Inr (JArray xs)"
  proof (cases "get_newTodos parsed")
    case (Inl e)
    with assms m p show ?thesis
      by (simp add: todoData_from_content_def todoData_try_def)
  next
    case (Inr w)
    with n have "\<not> isArray w" by (cases w) auto
    with Inr assms m p show ?thesis
      by (simp add: todoData_from_content_def todoData_try_def)
  qed
qed

lemma match_braces_SomeD:
  assumes "match_braces c = Some m"
  shows "\<exists>pre mid post. c = pre @ m @ post \<and> m = lbrace # mid @ [rbrace]
          \<and> lbrace \<notin> set pre \<and> rbrace \<notin> set post"
proof -
  define pre where "pre = takeWhile (\<lambda>x. x \<noteq> lbrace) c"
  define t where "t = dropWhile (\<lambda>x. x \<noteq> lbrace) c"
  define post where "post = rev (takeWhile (\<lambda>x. x \<noteq> rbrace) (rev t))"
  have c: "c = pre @ t"
    by (simp add: pre_def t_def)
  from assms have r: "rbrace \<in> set t" and m: "m = rev (dropWhile (\<lambda>x. x \<noteq> rbrace) (rev t))"
    by (auto simp: match_braces_def t_def Let_def split: if_splits)
  have "m @ post = rev (takeWhile (\<lambda>x. x \<noteq> rbrace) (rev t) @ dropWhile (\<lambda>x. x \<noteq> rbrace) (rev t))"
    by (simp only: m post_def rev_append)
  also have "\<dots> = rev (rev t)"
    by (simp only: takeWhile_dropWhile_id)
  finally have t: "t = m @ post"
    by simp
  have pre: "lbrace \<notin> set pre"
    by (auto simp: pre_def dest: set_takeWhileD)
  have post: "rbrace \<notin> set post"
    by (auto simp: post_def dest: set_takeWhileD)
  from r have "t \<noteq> []" by auto
  then have hd: "hd t = lbrace"
    using hd_dropWhile [of "\<lambda>x. x \<noteq> lbrace" c] by (simp add: t_def)
  from r have dne: "dropWhile (\<lambda>x. x \<noteq> rbrace) (rev t) \<noteq> []"
    by (simp add: dropWhile_eq_Nil_conv)
  then have "hd (dropWhile (\<lambda>x. x \<noteq> rbrace) (rev t)) = rbrace"
    using hd_dropWhile [of "\<lambda>x. x \<noteq> rbrace" "rev t"] by simp
  with dne have last: "last m = rbrace" and mne: "m \<noteq> []"
    by (simp_all add: m last_rev)
  from mne t hd have "hd m = lbrace" by (cases m) auto
  with mne obtain m' where m': "m = lbrace # m'" by (cases m) auto
  have "lbrace \<noteq> rbrace" by (simp add: lbrace_def rbrace_def)
  with last m' have "m' \<noteq> []" by auto
  with last m' have "m' = butlast m' @ [rbrace]"
    by (metis append_butlast_last_id last_ConsR)
  with m' have "m = lbrace # butlast m' @ [rbrace]" by simp
  with c t pre post show ?thesis by blast
qed

lemma match_braces_SomeI:
  assumes "c = pre @ m @ post" "m = lbrace # mid @ [rbrace]"
    "lbrace \<notin> set pre" "rbrace \<notin> set post"
  shows "match_braces c = Some m"
proof -
  have "x \<noteq> lbrace" if "x \<in> set pre" for x
    using that assms(3) by auto
  then have "dropWhile (\<lambda>x. x \<noteq> lbrace) (pre @ m @ post) = dropWhile (\<lambda>x. x \<noteq> lbrace) (m @ post)"
    by (rule dropWhile_append2)
  then have t: "dropWhile (\<lambda>x. x \<noteq> lbrace) c = m @ post"
    using assms(1,2) by simp
  have "rev (m @ post) = rev post @ rbrace # rev mid @ [lbrace]"
    using assms(2) by simp
  moreover have "dropWhile (\<lambda>x. x \<noteq> rbrace) (rev post @ rbrace # rev mid @ [lbrace])
        = rbrace # rev mid @ [lbrace]"
  proof -
    have "x \<noteq> rbrace" if "x \<in> set (rev post)" for x
      using that assms(4) by auto
    then have "dropWhile (\<lambda>x. x \<noteq> rbrace) (rev post @ rbrace # rev mid @ [lbrace])
        = dropWhile (\<lambda>x. x \<noteq> rbrace) (rbrace # rev mid @ [lbrace])"
      by (rule dropWhile_append2)
    then show ?thesis by simp
  qed
  ultimately have "rev (dropWhile (\<lambda>x. x \<noteq> rbrace) (rev (m @ post))) = m"
    using assms(2) by simp
  moreover have "rbrace \<in> set (m @ post)"
    using assms(2) by simp
  ultimately show ?thesis
    by (simp add: match_braces_def t)
qed

lemma example_contents:
  "content structured_todo_block = Some malformed_text"
  "content unmarked_block = Some unmarked_text"
  "content scraped_todo_block = Some scraped_text"
  "content malformed_todo_block = Some malformed_text"
  "content no_json_todo_block = Some no_json_text"
  "content string_todos_block = Some string_todos_text"
  "content both_sources_block = Some string_todos_text"
  "content string_scraped_block = Some string_scraped_text"
  "content string_payload_no_json_block = Some no_json_text"
  by (simp_all add: structured_todo_block_def unmarked_block_def scraped_todo_block_def
      malformed_todo_block_def no_json_todo_block_def string_todos_block_def
      both_sources_block_def string_scraped_block_def string_payload_no_json_block_def
      no_fields_def)

lemma example_payloads:
  "tool_use_result structured_todo_block = JObject [(lit ''newTodos'', one_task)]"
  "tool_use_result unmarked_block = JObject [(lit ''newTodos'', one_task)]"
  "tool_use_result scraped_todo_block = JUndefined"
  "tool_use_result malformed_todo_block = JObject [(lit ''oldTodos'', one_task)]"
  "tool_use_result no_json_todo_block = JUndefined"
  "tool_use_result string_todos_block = JObject [(lit ''newTodos'', JString (lit ''abc''))]"
  "tool_use_result both_sources_block = JObject [(lit ''newTodos'', one_task)]"
  "tool_use_result string_scraped_block = JUndefined"
  "tool_use_result string_payload_no_json_block
   = JObject [(lit ''newTodos'', JString (lit ''abc''))]"
  by (simp_all add: structured_todo_block_def unmarked_block_def scraped_todo_block_def
      malformed_todo_block_def no_json_todo_block_def string_todos_block_def
      both_sources_block_def string_scraped_block_def string_payload_no_json_block_def
      no_fields_def)

lemma marked_texts:
  "String_includes malformed_text (lit ''Todos have been modified successfully'')"
  "String_includes scraped_text (lit ''todo list'')"
  "String_includes no_json_text (lit ''Todos have been modified successfully'')"
  "String_includes string_todos_text (lit ''Todos have been modified successfully'')"
  "String_includes string_scraped_text (lit ''Todos have been modified successfully'')"
  unfolding malformed_text_def scraped_text_def no_json_text_def string_todos_text_def
    string_scraped_text_def
  by (rule includes_at_start includes_inside)+

lemma example_marked:
  "ToolResultBlock_isTodoResult structured_todo_block"
  "ToolResultBlock_isTodoResult scraped_todo_block"
  "ToolResultBlock_isTodoResult malformed_todo_block"
  "ToolResultBlock_isTodoResult no_json_todo_block"
  "ToolResultBlock_isTodoResult string_todos_block"
  "ToolResultBlock_isTodoResult both_sources_block"
  "ToolResultBlock_isTodoResult string_scraped_block"
  "ToolResultBlock_isTodoResult string_payload_no_json_block"
  by (simp_all add: ToolResultBlock_isTodoResult_def example_contents marked_texts)

lemma example_matches:
  "match_braces malformed_text = Some malformed_json"
  "match_braces scraped_text = Some well_formed_json"
  "match_braces no_json_text = None"
  "match_braces string_todos_text = Some well_formed_json"
  "match_braces string_scraped_text = Some string_json"
  by (simp_all add: match_braces_def malformed_text_def malformed_json_def scraped_text_def
      no_json_text_def string_todos_text_def string_scraped_text_def well_formed_json_def
      string_json_def lit_def lbrace_def rbrace_def dquote_def)

lemma example_parses:
  "example_parse malformed_json = Inl SyntaxError"
  "example_parse well_formed_json = Inr (JObject [(lit ''newTodos'', JArray [JNumber 1])])"
  "example_parse string_json = Inr (JObject [(lit ''newTodos'', JString (lit ''abc''))])"
  by (simp_all add: example_parse_def malformed_json_def well_formed_json_def string_json_def
      lit_def dquote_def)

lemma unmarked_content:
  "\<not> String_includes unmarked_text (lit ''Todos have been modified successfully'')"
  "\<not> String_includes unmarked_text (lit ''todo list'')"
  by (simp_all add: unmarked_text_def well_formed_json_def lit_def dquote_def)

lemma newTodos_lookup: "map_of [(lit ''newTodos'', v)] (lit ''newTodos'') = Some v"
  by simp

lemma newTodos_of_parsed:
  "get_newTodos (JObject [(lit ''newTodos'', v)]) = Inr v"
  by simp

lemma no_newTodos_in_payload:
  "get_newTodos (JObject [(lit ''oldTodos'', v)]) = Inr JUndefined"
  by (simp add: lit_def)

text \<open>
  C2. When a marker is present and the structured payload \<open>tool_use_result\<close> is an
  object whose \<open>newTodos\<close> field is a sequence, the extraction returns that sequence
  as it is. This holds for every behaviour of the parser and every text around the
  marker: the text is never scraped, whether the JSON it embeds is malformed or
  holds a different list.
\<close>

theorem structured_list_returned_verbatim:
  "ToolResultBlock_isTodoResult b \<Longrightarrow> tool_use_result b = JObject kvs \<Longrightarrow>
   map_of kvs (lit ''newTodos'') = Some (JArray todos) \<Longrightarrow>
   ToolResultBlock_todoData JSON_parse b = Inr (JArray todos)"
  by (rule todoData_structured) simp_all

theorem structured_list_returned_verbatim_witness:
  "ToolResultBlock_isTodoResult structured_todo_block
   \<and> tool_use_result structured_todo_block = JObject [(lit ''newTodos'', one_task)]
   \<and> map_of [(lit ''newTodos'', one_task)] (lit ''newTodos'') = Some one_task
   \<and> match_braces malformed_text = Some malformed_json
   \<and> example_parse malformed_json = Inl SyntaxError
   \<and> ToolResultBlock_todoData example_parse structured_todo_block = Inr one_task
   \<and> ToolResultBlock_isTodoResult both_sources_block
   \<and> tool_use_result both_sources_block = JObject [(lit ''newTodos'', one_task)]
   \<and> match_braces string_todos_text = Some well_formed_json
   \<and> example_parse well_formed_json = Inr (JObject [(lit ''newTodos'', JArray [JNumber 1])])
   \<and> one_task \<noteq> JArray [JNumber 1]
   \<and> ToolResultBlock_todoData example_parse both_sources_block = Inr one_task"
proof -
  note m = example_marked(1) and m' = example_marked(6)
  note t = example_payloads(1) and t' = example_payloads(7)
  have k: "map_of [(lit ''newTodos'', one_task)] (lit ''newTodos'') = Some one_task"
    by (rule newTodos_lookup)
  obtain ts where ts: "one_task = JArray ts"
    by (simp add: one_task_def)
  from k have k': "map_of [(lit ''newTodos'', one_task)] (lit ''newTodos'') = Some (JArray ts)"
    by (simp only: ts)
  have a: "ToolResultBlock_todoData example_parse structured_todo_block = Inr one_task"
    using structured_list_returned_verbatim [OF m t k', of example_parse] by (simp only: ts)
  have b: "ToolResultBlock_todoData example_parse both_sources_block = Inr one_task"
    using structured_list_returned_verbatim [OF m' t' k', of example_parse] by (simp only: ts)
  have o: "one_task \<noteq> JArray [JNumber 1]"
    by (simp add: one_task_def)
  from m t k example_matches(1) example_parses(1) a m' t' example_matches(4) example_parses(2) o b
  show ?thesis
    by (intro conjI)
qed

text \<open>
  C5. When the text \<open>content\<close> of a tool result is absent, or contains neither
  "Todos have been modified successfully" nor "todo list" as a substring (code unit
  by code unit, so case matters), the extraction returns \<open>null\<close>, whatever the
  structured payload \<open>tool_use_result\<close> holds and whatever the parser does.
\<close>

theorem no_marker_no_tasks:
  "(\<forall>c. content b = Some c \<longrightarrow>
        \<not> sublist (lit ''Todos have been modified successfully'') c
        \<and> \<not> sublist (lit ''todo list'') c) \<Longrightarrow>
   ToolResultBlock_todoData JSON_parse b = Inr JNull"
proof -
  assume "\<forall>c. content b = Some c \<longrightarrow>
        \<not> sublist (lit ''Todos have been modified successfully'') c
        \<and> \<not> sublist (lit ''todo list'') c"
  then have "\<not> ToolResultBlock_isTodoResult b"
    by (cases "content b") (simp_all add: ToolResultBlock_isTodoResult_def includes_sublist)
  then show ?thesis
    by (rule todoData_not_detected)
qed

theorem no_marker_no_tasks_witness:
  "content unmarked_block = Some unmarked_text
   \<and> \<not> sublist (lit ''Todos have been modified successfully'') unmarked_text
   \<and> \<not> sublist (lit ''todo list'') unmarked_text
   \<and> tool_use_result unmarked_block = JObject [(lit ''newTodos'', one_task)]
   \<and> ToolResultBlock_todoData example_parse unmarked_block = Inr JNull
   \<and> content no_fields = None
   \<and> ToolResultBlock_todoData example_parse no_fields = Inr JNull"
proof -
  have c: "content unmarked_block = Some unmarked_text"
    by (rule example_contents)
  have n1: "\<not> sublist (lit ''Todos have been modified successfully'') unmarked_text"
    using unmarked_content(1) by (simp add: includes_sublist)
  have n2: "\<not> sublist (lit ''todo list'') unmarked_text"
    using unmarked_content(2) by (simp add: includes_sublist)
  have t: "tool_use_result unmarked_block = JObject [(lit ''newTodos'', one_task)]"
    by (rule example_payloads)
  have "\<forall>c. content unmarked_block = Some c \<longrightarrow>
        \<not> sublist (lit ''Todos have been modified successfully'') c
        \<and> \<not> sublist (lit ''todo list'') c"
    using n1 n2 by (simp add: c)
  then have a: "ToolResultBlock_todoData example_parse unmarked_block = Inr JNull"
    by (rule no_marker_no_tasks)
  have e: "content no_fields = None"
    by (simp add: no_fields_def)
  then have "\<forall>c. content no_fields = Some c \<longrightarrow>
        \<not> sublist (lit ''Todos have been modified successfully'') c
        \<and> \<not> sublist (lit ''todo list'') c"
    by simp
  then have b: "ToolResultBlock_todoData example_parse no_fields = Inr JNull"
    by (rule no_marker_no_tasks)
  from c n1 n2 t a e b show ?thesis
    by (intro conjI)
qed

text \<open>
  The scraped path, where the code takes it: with a marker present and
  \<open>tool_use_result\<close> falsy, or its \<open>newTodos\<close> falsy, the text is scraped. The match
  runs from the first opening brace to the last closing brace, and the \<open>newTodos\<close>
  field of the parsed match is returned exactly when the parse succeeds and the field
  is a sequence. Without a match, on a parse error (swallowed by the empty handler)
  and on a missing or non-sequence field the result is \<open>null\<close>. On no input at all
  does the extraction leave with an exception.
\<close>

lemma scraped_path_swallows_errors:
  "(ToolResultBlock_isTodoResult b \<and> content b = Some c
      \<and> \<not> (truthy (tool_use_result b)
             \<and> (\<exists>v. get_newTodos (tool_use_result b) = Inr v \<and> truthy v))
    \<longrightarrow> (match_braces c = None \<longrightarrow> ToolResultBlock_todoData JSON_parse b = Inr JNull)
      \<and> (\<forall>m e. match_braces c = Some m \<and> JSON_parse m = Inl e
              \<longrightarrow> ToolResultBlock_todoData JSON_parse b = Inr JNull)
      \<and> (\<forall>m parsed xs. match_braces c = Some m \<and> JSON_parse m = Inr parsed
              \<and> get_newTodos parsed = Inr (JArray xs)
              \<longrightarrow> ToolResultBlock_todoData JSON_parse b = Inr (JArray xs))
      \<and> (\<forall>m parsed. match_braces c = Some m \<and> JSON_parse m = Inr parsed
              \<and> (\<forall>xs. get_newTodos parsed \<noteq> Inr (JArray xs))
              \<longrightarrow> ToolResultBlock_todoData JSON_parse b = Inr JNull))
   \<and> (match_braces c = Some m \<longleftrightarrow>
        (\<exists>pre mid post. c = pre @ m @ post \<and> m = lbrace # mid @ [rbrace]
            \<and> lbrace \<notin> set pre \<and> rbrace \<notin> set post))
   \<and> (\<exists>v. ToolResultBlock_todoData JSON_parse b = Inr v)"
proof -
  have scraped:
    "(match_braces c = None \<longrightarrow> ToolResultBlock_todoData JSON_parse b = Inr JNull)
      \<and> (\<forall>m e. match_braces c = Some m \<and> JSON_parse m = Inl e
              \<longrightarrow> ToolResultBlock_todoData JSON_parse b = Inr JNull)
      \<and> (\<forall>m parsed xs. match_braces c = Some m \<and> JSON_parse m = Inr parsed
              \<and> get_newTodos parsed = Inr (JArray xs)
              \<longrightarrow> ToolResultBlock_todoData JSON_parse b = Inr (JArray xs))
      \<and> (\<forall>m parsed. match_braces c = Some m \<and> JSON_parse m = Inr parsed
              \<and> (\<forall>xs. get_newTodos parsed \<noteq> Inr (JArray xs))
              \<longrightarrow> ToolResultBlock_todoData JSON_parse b = Inr JNull)"
    if d: "ToolResultBlock_isTodoResult b" and c: "content b = Some c"
      and u: "\<not> (truthy (tool_use_result b)
             \<and> (\<exists>v. get_newTodos (tool_use_result b) = Inr v \<and> truthy v))"
  proof -
    from d c have ne: "c \<noteq> []"
      using isTodoResult_content [of b] by simp
    have f: "ToolResultBlock_todoData JSON_parse b = todoData_from_content JSON_parse b JNull"
      using d u by (rule todoData_fallback)
    show ?thesis
      unfolding f using from_content_cases [OF c ne] by blast
  qed
  have "match_braces c = Some m \<longleftrightarrow>
        (\<exists>pre mid post. c = pre @ m @ post \<and> m = lbrace # mid @ [rbrace]
            \<and> lbrace \<notin> set pre \<and> rbrace \<notin> set post)"
    using match_braces_SomeD [of c m] match_braces_SomeI [of c _ m] by blast
  with scraped todoData_no_exception [of JSON_parse b] show ?thesis
    by blast
qed

lemma scraped_path_swallows_errors_examples:
  "ToolResultBlock_isTodoResult scraped_todo_block
   \<and> content scraped_todo_block = Some scraped_text
   \<and> \<not> truthy (tool_use_result scraped_todo_block)
   \<and> match_braces scraped_text = Some well_formed_json
   \<and> example_parse well_formed_json = Inr (JObject [(lit ''newTodos'', JArray [JNumber 1])])
   \<and> get_newTodos (JObject [(lit ''newTodos'', JArray [JNumber 1])]) = Inr (JArray [JNumber 1])
   \<and> ToolResultBlock_todoData example_parse scraped_todo_block = Inr (JArray [JNumber 1])
   \<and> ToolResultBlock_isTodoResult malformed_todo_block
   \<and> content malformed_todo_block = Some malformed_text
   \<and> get_newTodos (tool_use_result malformed_todo_block) = Inr JUndefined
   \<and> match_braces malformed_text = Some malformed_json
   \<and> example_parse malformed_json = Inl SyntaxError
   \<and> ToolResultBlock_todoData example_parse malformed_todo_block = Inr JNull
   \<and> ToolResultBlock_isTodoResult no_json_todo_block
   \<and> content no_json_todo_block = Some no_json_text
   \<and> match_braces no_json_text = None
   \<and> ToolResultBlock_todoData example_parse no_json_todo_block = Inr JNull"
proof -
  note d = example_marked and c = example_contents and m = example_matches
    and p = example_parses
  have u1: "\<not> truthy (tool_use_result scraped_todo_block)"
    and u3: "\<not> truthy (tool_use_result no_json_todo_block)"
    by (simp_all add: example_payloads)
  have u2: "get_newTodos (tool_use_result malformed_todo_block) = Inr JUndefined"
    by (simp only: example_payloads no_newTodos_in_payload)
  have g1: "get_newTodos (JObject [(lit ''newTodos'', JArray [JNumber 1])]) = Inr (JArray [JNumber 1])"
    by (rule newTodos_of_parsed)
  have n1: "\<not> (truthy (tool_use_result scraped_todo_block)
             \<and> (\<exists>v. get_newTodos (tool_use_result scraped_todo_block) = Inr v \<and> truthy v))"
    using u1 by simp
  have n2: "\<not> (truthy (tool_use_result malformed_todo_block)
             \<and> (\<exists>v. get_newTodos (tool_use_result malformed_todo_block) = Inr v \<and> truthy v))"
    using u2 by simp
  have n3: "\<not> (truthy (tool_use_result no_json_todo_block)
             \<and> (\<exists>v. get_newTodos (tool_use_result no_json_todo_block) = Inr v \<and> truthy v))"
    using u3 by simp
  note s1 = scraped_path_swallows_errors
      [where b = scraped_todo_block and c = scraped_text and JSON_parse = example_parse,
        THEN conjunct1, THEN mp, OF conjI [OF d(2) conjI [OF c(3) n1]]]
  note s2 = scraped_path_swallows_errors
      [where b = malformed_todo_block and c = malformed_text and JSON_parse = example_parse,
        THEN conjunct1, THEN mp, OF conjI [OF d(3) conjI [OF c(4) n2]]]
  note s3 = scraped_path_swallows_errors
      [where b = no_json_todo_block and c = no_json_text and JSON_parse = example_parse,
        THEN conjunct1, THEN mp, OF conjI [OF d(4) conjI [OF c(5) n3]]]
  have r1: "ToolResultBlock_todoData example_parse scraped_todo_block = Inr (JArray [JNumber 1])"
    by (rule s1 [THEN conjunct2, THEN conjunct2, THEN conjunct1, rule_format,
          OF conjI [OF m(2) conjI [OF p(2) g1]]])
  have r2: "ToolResultBlock_todoData example_parse malformed_todo_block = Inr JNull"
    by (rule s2 [THEN conjunct2, THEN conjunct1, rule_format, OF conjI [OF m(1) p(1)]])
  have r3: "ToolResultBlock_todoData example_parse no_json_todo_block = Inr JNull"
    by (rule s3 [THEN conjunct1, THEN mp, OF m(3)])
  from d(2) c(3) u1 m(2) p(2) g1 r1 d(3) c(4) u2 m(1) p(1) r2 d(4) c(5) m(3) r3
  show ?thesis
    by (intro conjI)
qed

text \<open>
  C6. With a marker present and no usable structured payload, the claim has the text
  scraped and, when both strategies fail, \<open>null\<close> returned. The code does so when the
  payload or its \<open>newTodos\<close> is falsy, but a payload whose \<open>newTodos\<close> is truthy and
  not a sequence is not usable either, and there the code differs: the structured
  branch returns the value unchecked, while the scraped branch beside it tests
  \<open>Array.isArray\<close>. For the payload \<open>{newTodos: "abc"}\<close> beside a text that embeds
  the well-formed \<open>{"newTodos":[1]}\<close> the result is the string "abc" and not the
  scraped list; beside a text without JSON, where both strategies fail, the result is
  again "abc" and not \<open>null\<close>.
\<close>

theorem non_sequence_payload_is_not_scraped:
  "ToolResultBlock_isTodoResult string_todos_block
   \<and> tool_use_result string_todos_block = JObject [(lit ''newTodos'', JString (lit ''abc''))]
   \<and> \<not> isArray (JString (lit ''abc''))
   \<and> content string_todos_block = Some string_todos_text
   \<and> match_braces string_todos_text = Some well_formed_json
   \<and> example_parse well_formed_json = Inr (JObject [(lit ''newTodos'', JArray [JNumber 1])])
   \<and> ToolResultBlock_todoData example_parse string_todos_block = Inr (JString (lit ''abc''))
   \<and> ToolResultBlock_todoData example_parse string_todos_block \<noteq> Inr (JArray [JNumber 1])
   \<and> ToolResultBlock_isTodoResult string_payload_no_json_block
   \<and> tool_use_result string_payload_no_json_block
       = JObject [(lit ''newTodos'', JString (lit ''abc''))]
   \<and> content string_payload_no_json_block = Some no_json_text
   \<and> match_braces no_json_text = None
   \<and> ToolResultBlock_todoData example_parse string_payload_no_json_block
       = Inr (JString (lit ''abc''))
   \<and> ToolResultBlock_todoData example_parse string_payload_no_json_block \<noteq> Inr JNull"
proof -
  have tr: "truthy (JString (lit ''abc''))"
    by (simp add: lit_def)
  have na: "\<not> isArray (JString (lit ''abc''))"
    by simp
  have g: "get_newTodos (JObject [(lit ''newTodos'', JString (lit ''abc''))])
      = Inr (JString (lit ''abc''))"
    by (rule newTodos_of_parsed)
  have p1: "truthy (tool_use_result string_todos_block)"
    and p2: "truthy (tool_use_result string_payload_no_json_block)"
    by (simp_all add: example_payloads)
  have q1: "get_newTodos (tool_use_result string_todos_block) = Inr (JString (lit ''abc''))"
    and q2: "get_newTodos (tool_use_result string_payload_no_json_block)
      = Inr (JString (lit ''abc''))"
    by (simp_all only: example_payloads g)
  have r1: "ToolResultBlock_todoData example_parse string_todos_block = Inr (JString (lit ''abc''))"
    by (rule todoData_structured [OF example_marked(5) p1 q1 tr])
  have r2: "ToolResultBlock_todoData example_parse string_payload_no_json_block
      = Inr (JString (lit ''abc''))"
    by (rule todoData_structured [OF example_marked(8) p2 q2 tr])
  from r1 have n1: "ToolResultBlock_todoData example_parse string_todos_block
      \<noteq> Inr (JArray [JNumber 1])"
    by simp
  from r2 have n2: "ToolResultBlock_todoData example_parse string_payload_no_json_block \<noteq> Inr JNull"
    by simp
  from example_marked(5) example_payloads(6) na example_contents(6) example_matches(4)
    example_parses(2) r1 n1 example_marked(8) example_payloads(9) example_contents(9)
    example_matches(3) r2 n2
  show ?thesis
    by (intro conjI)
qed

text \<open>
  C10. The structured path tests only that \<open>tool_use_result.newTodos\<close> is truthy,
  not that it is a sequence: with a marker present, any truthy value of that field is
  returned as it is, for every parser, so the text is not scraped. The scraped path
  alone tests \<open>Array.isArray\<close>. For the payload \<open>{newTodos: "abc"}\<close> beside a text
  that embeds the well-formed \<open>{"newTodos":[1]}\<close>, the extraction returns the string
  "abc", although scraping the text would have given the list; and when the text
  embeds \<open>{"newTodos":"abc"}\<close> and there is no payload, the scraped path rejects the
  same string and the result is \<open>null\<close>.
\<close>

theorem structured_path_takes_any_truthy_value:
  "(ToolResultBlock_isTodoResult b \<and> tool_use_result b = JObject kvs
      \<and> map_of kvs (lit ''newTodos'') = Some v \<and> truthy v
    \<longrightarrow> ToolResultBlock_todoData JSON_parse b = Inr v)
   \<and> ToolResultBlock_isTodoResult string_todos_block
   \<and> tool_use_result string_todos_block = JObject [(lit ''newTodos'', JString (lit ''abc''))]
   \<and> \<not> isArray (JString (lit ''abc''))
   \<and> ToolResultBlock_todoData example_parse string_todos_block = Inr (JString (lit ''abc''))
   \<and> todoData_from_content example_parse string_todos_block JNull = Inr (JArray [JNumber 1])
   \<and> match_braces string_scraped_text = Some string_json
   \<and> example_parse string_json = Inr (JObject [(lit ''newTodos'', JString (lit ''abc''))])
   \<and> ToolResultBlock_todoData example_parse string_scraped_block = Inr JNull"
proof -
  have general: "ToolResultBlock_todoData Q b' = Inr v'"
    if "ToolResultBlock_isTodoResult b'" "tool_use_result b' = JObject kvs'"
      "map_of kvs' (lit ''newTodos'') = Some v'" "truthy v'" for Q b' kvs' v'
    using that by (intro todoData_structured) simp_all
  have g: "ToolResultBlock_isTodoResult b \<and> tool_use_result b = JObject kvs
      \<and> map_of kvs (lit ''newTodos'') = Some v \<and> truthy v
    \<longrightarrow> ToolResultBlock_todoData JSON_parse b = Inr v"
    using general [of b kvs v JSON_parse] by blast
  have d: "ToolResultBlock_isTodoResult string_todos_block"
    by (rule example_marked)
  have t: "tool_use_result string_todos_block = JObject [(lit ''newTodos'', JString (lit ''abc''))]"
    by (rule example_payloads)
  have tr: "truthy (JString (lit ''abc''))"
    by (simp add: lit_def)
  have na: "\<not> isArray (JString (lit ''abc''))"
    by simp
  have r: "ToolResultBlock_todoData example_parse string_todos_block = Inr (JString (lit ''abc''))"
    by (rule general [OF d t newTodos_lookup tr])
  have c: "content string_todos_block = Some string_todos_text"
    by (rule example_contents)
  have ne: "string_todos_text \<noteq> []"
    by (simp add: string_todos_text_def lit_def)
  have m: "match_braces string_todos_text = Some well_formed_json"
    by (rule example_matches)
  have s1: "todoData_from_content example_parse string_todos_block JNull = Inr (JArray [JNumber 1])"
    by (rule from_content_cases(3) [where P = example_parse, OF c ne m example_parses(2) newTodos_of_parsed])
  have c': "content string_scraped_block = Some string_scraped_text"
    by (rule example_contents)
  have ne': "string_scraped_text \<noteq> []"
    by (simp add: string_scraped_text_def lit_def)
  have "\<not> (truthy (tool_use_result string_scraped_block)
      \<and> (\<exists>v. get_newTodos (tool_use_result string_scraped_block) = Inr v \<and> truthy v))"
    by (simp add: example_payloads)
  with example_marked(7)
  have "ToolResultBlock_todoData example_parse string_scraped_block
      = todoData_from_content example_parse string_scraped_block JNull"
    by (rule todoData_fallback)
  moreover have "\<forall>xs. get_newTodos (JObject [(lit ''newTodos'', JString (lit ''abc''))]) \<noteq> Inr (JArray xs)"
    by simp
  then have "todoData_from_content example_parse string_scraped_block JNull = Inr JNull"
    by (rule from_content_cases(4)
          [where P = example_parse, OF c' ne' example_matches(5) example_parses(3)])
  ultimately have s2: "ToolResultBlock_todoData example_parse string_scraped_block = Inr JNull"
    by simp
  from g d t na r s1 example_matches(5) example_parses(3) s2 show ?thesis
    by (intro conjI)
qed

theorem structured_path_takes_any_truthy_value_witness:
  "ToolResultBlock_isTodoResult string_todos_block
   \<and> tool_use_result string_todos_block = JObject [(lit ''newTodos'', JString (lit ''abc''))]
   \<and> map_of [(lit ''newTodos'', JString (lit ''abc''))] (lit ''newTodos'') = Some (JString (lit ''abc''))
   \<and> truthy (JString (lit ''abc''))
   \<and> ToolResultBlock_todoData (\<lambda>s. Inl SyntaxError) string_todos_block = Inr (JString (lit ''abc''))"
proof -
  have d: "ToolResultBlock_isTodoResult string_todos_block"
    by (rule example_marked)
  have t: "tool_use_result string_todos_block = JObject [(lit ''newTodos'', JString (lit ''abc''))]"
    by (rule example_payloads)
  have k: "map_of [(lit ''newTodos'', JString (lit ''abc''))] (lit ''newTodos'') = Some (JString (lit ''abc''))"
    by (rule newTodos_lookup)
  have tr: "truthy (JString (lit ''abc''))"
    by (simp add: lit_def)
  have r: "ToolResultBlock_todoData (\<lambda>s. Inl SyntaxError) string_todos_block = Inr (JString (lit ''abc''))"
    by (rule structured_path_takes_any_truthy_value
          [where b = string_todos_block and JSON_parse = "\<lambda>s. Inl SyntaxError",
            THEN conjunct1, THEN mp, OF conjI [OF d conjI [OF t conjI [OF k tr]]]])
  from d t k tr r show ?thesis
    by (intro conjI)
qed

section \<open>Search results: properties\<close>

lemma slice_take_50: "slice s 0 50 = take 50 s"
  by (simp add: slice_def min_def)

lemma find_in_append:
  "List.find P (xs @ ys) = (case List.find P xs of Some x \<Rightarrow> Some x | None \<Rightarrow> List.find P ys)"
  by (induction xs) auto

lemma find_session_scan:
  "find_session ps r = List.find (\<lambda>s. id' s = session_id r) (concat (map chat_sessions ps))"
  by (induction ps) (simp_all add: find_in_append split: option.splits)

lemma handleSearchResultClick_scan:
  "handleSearchResultClick (Some ps) now1 now2 r =
     (case List.find (\<lambda>s. id' s = session_id r) (concat (map chat_sessions ps)) of
        Some s \<Rightarrow> s
      | None \<Rightarrow> fallbackSession now1 now2 r)"
  by (simp add: handleSearchResultClick_def find_session_scan)

text \<open>
  C4. \<open>handleSearchResultClick\<close> selects the first session, in the order of the
  projects and of each project's sessions, whose id is the session id of the search
  result. When no session has that id, or the projects are not loaded, it selects a
  placeholder: the id of the result, the title "Search Result: " followed by the
  first 50 characters of the snippet and "...", both time fields read from the clock
  (two readings, one per field), an empty project path and a message count of 0. It
  always selects a session.
\<close>

theorem handleSearchResultClick_first_match_or_placeholder:
  "(\<forall>i. i < length (concat (map chat_sessions ps))
        \<and> id' (concat (map chat_sessions ps) ! i) = session_id r
        \<and> (\<forall>j<i. id' (concat (map chat_sessions ps) ! j) \<noteq> session_id r)
      \<longrightarrow> handleSearchResultClick (Some ps) now1 now2 r = concat (map chat_sessions ps) ! i)
   \<and> ((\<forall>s \<in> set (concat (map chat_sessions ps)). id' s \<noteq> session_id r)
      \<longrightarrow> handleSearchResultClick (Some ps) now1 now2 r = fallbackSession now1 now2 r)
   \<and> handleSearchResultClick None now1 now2 r = fallbackSession now1 now2 r
   \<and> fallbackSession now1 now2 r =
       \<lparr> id' = session_id r,
         title = lit ''Search Result: '' @ take 50 (snippet r) @ lit ''...'',
         timestamp = now1, project_path = [], message_count = 0, last_updated = now2 \<rparr>"
proof -
  let ?all = "concat (map chat_sessions ps)"
  let ?P = "\<lambda>s. id' s = session_id r"
  have first: "handleSearchResultClick (Some ps) now1 now2 r = ?all ! i"
    if "i < length ?all" "?P (?all ! i)" "\<forall>j<i. \<not> ?P (?all ! j)" for i
  proof -
    from that have "List.find ?P ?all = Some (?all ! i)"
      unfolding find_Some_iff by blast
    then show ?thesis
      by (simp add: handleSearchResultClick_scan)
  qed
  have none: "handleSearchResultClick (Some ps) now1 now2 r = fallbackSession now1 now2 r"
    if "\<forall>s \<in> set ?all. \<not> ?P s"
  proof -
    from that have "List.find ?P ?all = None"
      unfolding find_None_iff by blast
    then show ?thesis
      by (simp add: handleSearchResultClick_scan)
  qed
  have unloaded: "handleSearchResultClick None now1 now2 r = fallbackSession now1 now2 r"
    by (simp add: handleSearchResultClick_def)
  have fields: "fallbackSession now1 now2 r =
       \<lparr> id' = session_id r,
         title = lit ''Search Result: '' @ take 50 (snippet r) @ lit ''...'',
         timestamp = now1, project_path = [], message_count = 0, last_updated = now2 \<rparr>"
    by (simp add: fallbackSession_def slice_take_50)
  from first none unloaded fields show ?thesis
    by blast
qed

lemma example_sessions:
  "concat (map chat_sessions example_projects) = [session_a, session_b, session_b_again]"
  by (simp add: example_projects_def)

theorem handleSearchResultClick_first_match_or_placeholder_witness:
  "concat (map chat_sessions example_projects) = [session_a, session_b, session_b_again]
   \<and> id' session_a \<noteq> session_id hit_b \<and> id' session_b = session_id hit_b
   \<and> id' session_b_again = session_id hit_b
   \<and> handleSearchResultClick (Some example_projects) clock1 clock2 hit_b = session_b
   \<and> id' session_a \<noteq> session_id stale_hit \<and> id' session_b \<noteq> session_id stale_hit
   \<and> id' session_b_again \<noteq> session_id stale_hit
   \<and> handleSearchResultClick (Some example_projects) clock1 clock2 stale_hit =
       \<lparr> id' = lit ''zz'',
         title = lit ''Search Result: 01234567890123456789012345678901234567890123456789...'',
         timestamp = clock1, project_path = [], message_count = 0, last_updated = clock2 \<rparr>
   \<and> handleSearchResultClick None clock1 clock2 hit_b =
       \<lparr> id' = lit ''b'', title = lit ''Search Result: found it...'',
         timestamp = clock1, project_path = [], message_count = 0, last_updated = clock2 \<rparr>"
proof -
  let ?all = "concat (map chat_sessions example_projects)"
  note hit = handleSearchResultClick_first_match_or_placeholder
    [where ps = example_projects and r = hit_b and ?now1.0 = clock1 and ?now2.0 = clock2]
  note stale = handleSearchResultClick_first_match_or_placeholder
    [where ps = example_projects and r = stale_hit and ?now1.0 = clock1 and ?now2.0 = clock2]
  have a: "id' session_a \<noteq> session_id hit_b" and b: "id' session_b = session_id hit_b"
    and b': "id' session_b_again = session_id hit_b"
    by (simp_all add: session_a_def session_b_def session_b_again_def hit_b_def lit_def)
  have "(1::nat) < length ?all \<and> id' (?all ! 1) = session_id hit_b
      \<and> (\<forall>j<1. id' (?all ! j) \<noteq> session_id hit_b)"
    using a b by (simp add: example_sessions)
  then have "handleSearchResultClick (Some example_projects) clock1 clock2 hit_b = ?all ! 1"
    by (rule hit [THEN conjunct1, rule_format])
  then have r1: "handleSearchResultClick (Some example_projects) clock1 clock2 hit_b = session_b"
    by (simp add: example_sessions)
  have n: "id' session_a \<noteq> session_id stale_hit" "id' session_b \<noteq> session_id stale_hit"
    "id' session_b_again \<noteq> session_id stale_hit"
    by (simp_all add: session_a_def session_b_def session_b_again_def stale_hit_def lit_def)
  then have "\<forall>s \<in> set ?all. id' s \<noteq> session_id stale_hit"
    by (simp add: example_sessions)
  then have "handleSearchResultClick (Some example_projects) clock1 clock2 stale_hit
      = fallbackSession clock1 clock2 stale_hit"
    by (rule stale [THEN conjunct2, THEN conjunct1, THEN mp])
  also have "\<dots> = \<lparr> id' = session_id stale_hit,
         title = lit ''Search Result: '' @ take 50 (snippet stale_hit) @ lit ''...'',
         timestamp = clock1, project_path = [], message_count = 0, last_updated = clock2 \<rparr>"
    by (rule stale [THEN conjunct2, THEN conjunct2, THEN conjunct2])
  also have "\<dots> = \<lparr> id' = lit ''zz'',
         title = lit ''Search Result: 01234567890123456789012345678901234567890123456789...'',
         timestamp = clock1, project_path = [], message_count = 0, last_updated = clock2 \<rparr>"
    by (simp add: stale_hit_def lit_def)
  finally have r2: "handleSearchResultClick (Some example_projects) clock1 clock2 stale_hit =
       \<lparr> id' = lit ''zz'',
         title = lit ''Search Result: 01234567890123456789012345678901234567890123456789...'',
         timestamp = clock1, project_path = [], message_count = 0, last_updated = clock2 \<rparr>" .
  have "handleSearchResultClick None clock1 clock2 hit_b = fallbackSession clock1 clock2 hit_b"
    by (rule hit [THEN conjunct2, THEN conjunct2, THEN conjunct1])
  also have "\<dots> = \<lparr> id' = session_id hit_b,
         title = lit ''Search Result: '' @ take 50 (snippet hit_b) @ lit ''...'',
         timestamp = clock1, project_path = [], message_count = 0, last_updated = clock2 \<rparr>"
    by (rule hit [THEN conjunct2, THEN conjunct2, THEN conjunct2])
  also have "\<dots> = \<lparr> id' = lit ''b'', title = lit ''Search Result: found it...'',
         timestamp = clock1, project_path = [], message_count = 0, last_updated = clock2 \<rparr>"
    by (simp add: hit_b_def lit_def)
  finally have r3: "handleSearchResultClick None clock1 clock2 hit_b =
       \<lparr> id' = lit ''b'', title = lit ''Search Result: found it...'',
         timestamp = clock1, project_path = [], message_count = 0, last_updated = clock2 \<rparr>" .
  from example_sessions a b b' r1 n r2 r3 show ?thesis
    by (intro conjI)
qed

text \<open>
  C7. \<open>filteredResults\<close> keeps exactly the results whose match type is in the
  active set, in their order: its output is a subsequence of the input, holds the
  results of the input with an active match type and no others, and every
  subsequence of the input made of such results is a subsequence of it. With the
  six match types of \<open>ALL_MATCH_TYPES\<close> active, a list of results whose match types
  are all among the six is returned unchanged (and only such a list is, a match type
  being any string in the source); with no type active the output is empty.
\<close>

theorem filteredResults_keeps_active_in_order:
  "(\<exists>out. filteredResults (Some rs) A = Some out)
   \<and> (\<forall>out. filteredResults (Some rs) A = Some out
         \<longrightarrow> subseq out rs
           \<and> (\<forall>r. r \<in> set out \<longleftrightarrow> r \<in> set rs \<and> match_type r \<in> A)
           \<and> (\<forall>ys. subseq ys rs \<and> (\<forall>r \<in> set ys. match_type r \<in> A) \<longrightarrow> subseq ys out))
   \<and> ((\<forall>r \<in> set rs. match_type r \<in> set ALL_MATCH_TYPES)
         \<longleftrightarrow> filteredResults (Some rs) (set ALL_MATCH_TYPES) = Some rs)
   \<and> filteredResults (Some rs) {} = Some []"
proof -
  let ?P = "\<lambda>r. match_type r \<in> A"
  have out: "filteredResults (Some rs) A = Some (filter ?P rs)"
    by (simp add: filteredResults_def)
  have maximal: "subseq ys (filter ?P rs)" if "subseq ys rs" "\<forall>r \<in> set ys. ?P r" for ys
  proof -
    from that(1) have "subseq (filter ?P ys) (filter ?P rs)"
      by (rule subseq_filter)
    moreover from that(2) have "filter ?P ys = ys"
      by (simp add: filter_id_conv)
    ultimately show ?thesis by simp
  qed
  have chosen: "subseq (filter ?P rs) rs
           \<and> (\<forall>r. r \<in> set (filter ?P rs) \<longleftrightarrow> r \<in> set rs \<and> match_type r \<in> A)
           \<and> (\<forall>ys. subseq ys rs \<and> (\<forall>r \<in> set ys. match_type r \<in> A)
                 \<longrightarrow> subseq ys (filter ?P rs))"
    using maximal by auto
  have full: "(\<forall>r \<in> set rs. match_type r \<in> set ALL_MATCH_TYPES)
         \<longleftrightarrow> filteredResults (Some rs) (set ALL_MATCH_TYPES) = Some rs"
    by (simp add: filteredResults_def filter_id_conv)
  have none: "filteredResults (Some rs) {} = Some []"
    by (simp add: filteredResults_def)
  from out chosen full none show ?thesis
    by auto
qed

theorem filteredResults_keeps_active_in_order_witness:
  "filteredResults (Some example_results) {lit ''content'', lit ''thinking''}
     = Some [hit_b, thinking_hit, hit_b]
   \<and> subseq [hit_b, thinking_hit, hit_b] example_results
   \<and> stale_hit \<notin> set [hit_b, thinking_hit, hit_b]
   \<and> match_type hit_b \<in> set ALL_MATCH_TYPES \<and> match_type stale_hit \<in> set ALL_MATCH_TYPES
   \<and> match_type thinking_hit \<in> set ALL_MATCH_TYPES
   \<and> filteredResults (Some example_results) (set ALL_MATCH_TYPES) = Some example_results
   \<and> filteredResults (Some example_results) {} = Some []"
proof -
  let ?A = "{lit ''content'', lit ''thinking''}"
  note T = filteredResults_keeps_active_in_order [where rs = example_results]
  have types: "match_type hit_b = lit ''content''" "match_type stale_hit = lit ''tool_name''"
    "match_type thinking_hit = lit ''thinking''"
    by (simp_all add: hit_b_def stale_hit_def thinking_hit_def)
  have differ: "lit ''tool_name'' \<noteq> lit ''content''" "lit ''tool_name'' \<noteq> lit ''thinking''"
    by (simp_all add: lit_def)
  have e: "filteredResults (Some example_results) ?A = Some [hit_b, thinking_hit, hit_b]"
    by (simp add: filteredResults_def example_results_def types differ)
  from T [where A = ?A, THEN conjunct2, THEN conjunct1, rule_format, OF e]
  have s: "subseq [hit_b, thinking_hit, hit_b] example_results"
    and m: "\<forall>r. r \<in> set [hit_b, thinking_hit, hit_b]
              \<longleftrightarrow> r \<in> set example_results \<and> match_type r \<in> ?A"
    by blast+
  from m have o: "stale_hit \<notin> set [hit_b, thinking_hit, hit_b]"
    by (simp add: types differ)
  have k: "match_type hit_b \<in> set ALL_MATCH_TYPES" "match_type stale_hit \<in> set ALL_MATCH_TYPES"
    "match_type thinking_hit \<in> set ALL_MATCH_TYPES"
    by (simp_all add: types ALL_MATCH_TYPES_def)
  then have "\<forall>r \<in> set example_results. match_type r \<in> set ALL_MATCH_TYPES"
    by (simp add: example_results_def)
  then have f: "filteredResults (Some example_results) (set ALL_MATCH_TYPES) = Some example_results"
    by (rule T [THEN conjunct2, THEN conjunct2, THEN conjunct1, THEN iffD1])
  have n: "filteredResults (Some example_results) {} = Some []"
    by (rule T [THEN conjunct2, THEN conjunct2, THEN conjunct2])
  from e s o k f n show ?thesis
    by (intro conjI)
qed

end
